theory Spec2Isabelle
  imports
    Complex_Main
    "HOL-Library.Word"
    "HOL-Library.Multiset"
    "HOL-Library.Char_ord"
    "HOL-Library.List_Lexorder"
    "HOL-Library.Product_Lexorder"
begin

section \<open>Student Performance Analytics Dashboard: the data pipeline of SPADashboard.py\<close>

text \<open>
  The program reads a CSV file into a pandas data frame, derives four columns at module
  level, projects ten columns into \<open>selected_data\<close>, and on every change of the gender
  dropdown runs \<open>update_plots\<close>: filter, group, \<open>generate_figures\<close>.

  Conventions of the embedding.
  \<^item> Integer columns of the CSV are numpy \<open>int64\<close> columns: 64-bit words read with \<open>sint\<close>;
    \<open>*\<close> on them wraps around as numpy's does.
  \<^item> A cell of a string column is \<open>None\<close> when \<open>read_csv\<close> read it as missing (\<open>NaN\<close>).
    The integer columns are taken to have no missing cell.
  \<^item> What pandas and plotly compute in \<open>float64\<close>, or decide by their own rules, is not
    computed here: the mean of a group, the binning of \<open>pd.cut\<close>, the default of
    \<open>observed\<close>, and whether a plotly call accepts its data are the fields of a parameter
    \<open>library\<close>. The exact-arithmetic reading of the mean and of \<open>pd.cut\<close> is one instance,
    \<open>exact_library\<close>; it agrees with \<open>float64\<close> wherever no rounding moves a result.
  \<^item> A figure is the data handed to its plotly call. The snapshot written by \<open>to_csv\<close> is
    not modelled.
  \<^item> Data frames are objects in a store, so that aliasing and in-place column assignment
    are visible.
\<close>

subsection \<open>Columns read from the CSV\<close>

type_synonym int64 = "64 word"

record raw_row =
  csv_sex :: "string option"
  csv_studytime :: int64
  Dalc :: int64
  Walc :: int64
  G3 :: int64
  higher :: "string option"
  csv_internet :: "string option"
  csv_failures :: int64
  csv_freetime :: int64
  csv_traveltime :: int64
  csv_absences :: int64

subsection \<open>Column derivation (module level, lines 21--45)\<close>

text \<open>The ordered categories of \<open>studytime\<close>, in the order of the \<open>categories=\<close> argument.\<close>

datatype studytime_cat = Lt2 | H2to5 | H5to10 | Gt10

definition categories :: "studytime_cat list" where
  "categories = [Lt2, H2to5, H5to10, Gt10]"

fun cat_label :: "studytime_cat \<Rightarrow> string" where
  "cat_label Lt2 = ''<2 hours''"
| "cat_label H2to5 = ''2-5 hours''"
| "cat_label H5to10 = ''5-10 hours''"
| "cat_label Gt10 = ''>10 hours''"

text \<open>The position of a category in \<open>categories\<close>: the code pandas stores and sorts by.\<close>

fun cat_code :: "studytime_cat \<Rightarrow> nat" where
  "cat_code Lt2 = 0"
| "cat_code H2to5 = 1"
| "cat_code H5to10 = 2"
| "cat_code Gt10 = 3"

instantiation studytime_cat :: linorder
begin

definition less_eq_studytime_cat :: "studytime_cat \<Rightarrow> studytime_cat \<Rightarrow> bool" where
  "less_eq_studytime_cat a b = (cat_code a \<le> cat_code b)"

definition less_studytime_cat :: "studytime_cat \<Rightarrow> studytime_cat \<Rightarrow> bool" where
  "less_studytime_cat a b = (cat_code a < cat_code b)"

instance
proof
  fix x y z :: studytime_cat
  show "(x < y) = (x \<le> y \<and> \<not> y \<le> x)"
    by (auto simp: less_eq_studytime_cat_def less_studytime_cat_def)
  show "x \<le> x"
    by (simp add: less_eq_studytime_cat_def)
  show "x \<le> y \<Longrightarrow> y \<le> z \<Longrightarrow> x \<le> z"
    by (simp add: less_eq_studytime_cat_def)
  show "x \<le> y \<Longrightarrow> y \<le> x \<Longrightarrow> x = y"
    by (cases x; cases y) (simp_all add: less_eq_studytime_cat_def)
  show "x \<le> y \<or> y \<le> x"
    by (auto simp: less_eq_studytime_cat_def)
qed

end

text \<open>
  \<open>data['studytime'].map({1: '<2 hours', ...})\<close>: a dictionary lookup per cell; a code that
  is no key of the dictionary becomes \<open>NaN\<close>. Nothing is raised.
\<close>

definition studytime_map :: "int64 \<Rightarrow> string option" where
  "studytime_map c =
     (if c = 1 then Some ''<2 hours''
      else if c = 2 then Some ''2-5 hours''
      else if c = 3 then Some ''5-10 hours''
      else if c = 4 then Some ''>10 hours''
      else None)"

text \<open>
  \<open>pd.Categorical(values, categories=[...], ordered=True)\<close>: a value that is one of the
  categories keeps it, every other value (also \<open>NaN\<close>) becomes \<open>NaN\<close>.
\<close>

definition Categorical :: "string option \<Rightarrow> studytime_cat option" where
  "Categorical v =
     (case v of
        None \<Rightarrow> None
      | Some s \<Rightarrow> (case filter (\<lambda>c. cat_label c = s) categories of
                    [] \<Rightarrow> None
                  | c # _ \<Rightarrow> Some c))"

text \<open>\<open>data[['Dalc', 'Walc']].max(axis=1)\<close>: the larger of the two signed values.\<close>

definition max_axis1 :: "int64 \<Rightarrow> int64 \<Rightarrow> int64" where
  "max_axis1 a b = (if a <s b then b else a)"

text \<open>
  \<open>data['sex'].replace({'F': 'Female', 'M': 'Male'})\<close>: other values stay, a missing
  value stays missing.
\<close>

definition replace_sex :: "string option \<Rightarrow> string option" where
  "replace_sex v =
     map_option (\<lambda>s. if s = ''F'' then ''Female'' else if s = ''M'' then ''Male'' else s) v"

text \<open>A row of \<open>selected_data\<close>: the ten projected columns.\<close>

record row =
  sex :: "string option"
  studytime :: "studytime_cat option"
  internet :: "string option"
  higher_education :: "string option"
  failures :: int64
  freetime :: int64
  traveltime :: int64
  consumptionlevel :: int64
  absences :: int64
  GPA :: int64

definition derive_row :: "raw_row \<Rightarrow> row" where
  "derive_row r =
     \<lparr> sex = replace_sex (csv_sex r),
       studytime = Categorical (studytime_map (csv_studytime r)),
       internet = csv_internet r,
       higher_education = higher r,
       failures = csv_failures r,
       freetime = csv_freetime r,
       traveltime = csv_traveltime r,
       consumptionlevel = max_axis1 (Dalc r) (Walc r),
       absences = csv_absences r,
       GPA = G3 r * 5 \<rparr>"

definition selected_data :: "raw_row list \<Rightarrow> row list" where
  "selected_data data = map derive_row data"

subsection \<open>Frames, and what is left to pandas and plotly\<close>

text \<open>The value of an \<open>int64\<close> cell as a number.\<close>

definition int_value :: "int64 \<Rightarrow> rat" where
  "int_value x = of_int (sint x)"

text \<open>
  A row of the frame that lines 340--345 make: the four keys, never missing, and the four
  means, which are \<open>float64\<close> values.
\<close>

record grouped_row =
  g_sex :: string
  g_studytime :: studytime_cat
  g_internet :: string
  g_higher_education :: string
  g_consumptionlevel :: rat
  g_failures :: rat
  g_absences :: rat
  g_GPA :: rat

datatype bin_label = Low | Medium | High

text \<open>
  A frame with the columns of \<open>selected_data\<close>, or with the columns of the grouped frame;
  each with the column \<open>consumption_level\<close> when it has been assigned (\<open>None\<close>: the frame
  has no such column).
\<close>

record frame =
  rows :: "row list"
  consumption_level :: "bin_label option list option"

record grouped_frame =
  grouped_rows :: "grouped_row list"
  grouped_consumption_level :: "bin_label option list option"

datatype obj = Table frame | Grouped grouped_frame

text \<open>A numeric column as \<open>pd.cut\<close> receives it: of \<open>int64\<close> or of \<open>float64\<close> cells.\<close>

datatype column = IntColumn "int64 list" | FloatColumn "rat list"

text \<open>
  The data of a plotly call. \<open>px.scatter\<close>, \<open>px.box\<close>, \<open>px.histogram\<close> and \<open>px.violin\<close> are
  given a frame as it is; the other three a frame made for them.
\<close>

datatype plot =
    Sunburst "(studytime_cat \<times> string \<times> rat) list"
  | Scatter obj
  | Box obj
  | Line "(studytime_cat option \<times> rat option) list"
  | Bar "(string \<times> rat \<times> rat) list"
  | Histogram obj
  | Violin obj

datatype error = ValueError | PlotlyError | BadReference

text \<open>
  The installed pandas and plotly.
  \<^item> \<open>observed_default\<close>: the default of \<open>observed\<close> in \<open>groupby\<close> (\<open>False\<close> before pandas 3.0,
    \<open>True\<close> from 3.0 on).
  \<^item> \<open>fmean\<close>: the \<open>mean\<close> aggregate of \<open>groupby\<close> on the values of one non-empty group, in
    row order; the result is a \<open>float64\<close> value.
  \<^item> \<open>pd_cut\<close>: \<open>pd.cut(column, bins=3, labels=['Low', 'Medium', 'High'],
    include_lowest=True)\<close>, which computes its bin edges in \<open>float64\<close> and raises
    \<open>ValueError\<close> for a column it cannot bin.
  \<^item> \<open>px_ok\<close>: whether the plotly call returns a figure for this data; otherwise it raises.
\<close>

record library =
  observed_default :: bool
  fmean :: "rat list \<Rightarrow> rat"
  pd_cut :: "column \<Rightarrow> error + bin_label option list"
  px_ok :: "plot \<Rightarrow> bool"

subsection \<open>Grouping (pandas \<open>groupby\<close>)\<close>

text \<open>
  \<open>groupby\<close> with its defaults \<open>sort=True\<close> and \<open>dropna=True\<close>, and \<open>observed=True\<close>: the
  group keys are the distinct keys that occur, in ascending order; a row with a missing
  value in a key column has no key (\<open>None\<close>) and belongs to no group.
\<close>

definition group_keys :: "('r \<Rightarrow> 'k::linorder option) \<Rightarrow> 'r list \<Rightarrow> 'k list" where
  "group_keys key rs = sort (remdups (List.map_filter key rs))"

definition get_group :: "('r \<Rightarrow> 'k option) \<Rightarrow> 'r list \<Rightarrow> 'k \<Rightarrow> 'r list" where
  "get_group key rs k = filter (\<lambda>r. key r = Some k) rs"

text \<open>
  Lines 340--345: \<open>groupby(['sex', 'studytime', 'internet', 'higher education'],
  observed=True).agg({... 'mean'}).reset_index()\<close>.
\<close>

type_synonym group_key = "string \<times> studytime_cat \<times> string \<times> string"

definition key4 :: "row \<Rightarrow> group_key option" where
  "key4 r =
     (case (sex r, studytime r, internet r, higher_education r) of
        (Some s, Some c, Some i, Some h) \<Rightarrow> Some (s, c, i, h)
      | _ \<Rightarrow> None)"

definition agg_row :: "library \<Rightarrow> row list \<Rightarrow> group_key \<Rightarrow> grouped_row" where
  "agg_row lib rs k =
     (case k of (s, c, i, h) \<Rightarrow>
        \<lparr> g_sex = s, g_studytime = c, g_internet = i, g_higher_education = h,
          g_consumptionlevel =
            fmean lib (map (\<lambda>r. int_value (consumptionlevel r)) (get_group key4 rs k)),
          g_failures = fmean lib (map (\<lambda>r. int_value (failures r)) (get_group key4 rs k)),
          g_absences = fmean lib (map (\<lambda>r. int_value (absences r)) (get_group key4 rs k)),
          g_GPA = fmean lib (map (\<lambda>r. int_value (GPA r)) (get_group key4 rs k)) \<rparr>)"

definition groupby_mean :: "library \<Rightarrow> row list \<Rightarrow> grouped_row list" where
  "groupby_mean lib filtered = map (agg_row lib filtered) (group_keys key4 filtered)"

subsection \<open>The columns \<open>generate_figures\<close> reads\<close>

text \<open>
  \<open>generate_figures\<close> reads seven columns of \<open>filtered_data\<close>, by name. A frame of either
  kind has them; in the grouped frame the three numeric ones hold means.
\<close>

record view_row =
  v_sex :: "string option"
  v_studytime :: "studytime_cat option"
  v_internet :: "string option"
  v_higher_education :: "string option"
  v_consumptionlevel :: rat
  v_absences :: rat
  v_GPA :: rat

definition view_of_row :: "row \<Rightarrow> view_row" where
  "view_of_row r =
     \<lparr> v_sex = sex r, v_studytime = studytime r, v_internet = internet r,
       v_higher_education = higher_education r,
       v_consumptionlevel = int_value (consumptionlevel r),
       v_absences = int_value (absences r), v_GPA = int_value (GPA r) \<rparr>"

definition view_of_grouped_row :: "grouped_row \<Rightarrow> view_row" where
  "view_of_grouped_row g =
     \<lparr> v_sex = Some (g_sex g), v_studytime = Some (g_studytime g),
       v_internet = Some (g_internet g), v_higher_education = Some (g_higher_education g),
       v_consumptionlevel = g_consumptionlevel g, v_absences = g_absences g,
       v_GPA = g_GPA g \<rparr>"

fun view :: "obj \<Rightarrow> view_row list" where
  "view (Table f) = map view_of_row (rows f)"
| "view (Grouped g) = map view_of_grouped_row (grouped_rows g)"

text \<open>\<open>filtered_data['consumptionlevel']\<close>, as \<open>pd.cut\<close> receives it.\<close>

fun levels :: "obj \<Rightarrow> column" where
  "levels (Table f) = IntColumn (map consumptionlevel (rows f))"
| "levels (Grouped g) = FloatColumn (map g_consumptionlevel (grouped_rows g))"

text \<open>\<open>filtered_data['consumption_level'] = ...\<close>: the column is added, or replaced.\<close>

fun set_labels :: "obj \<Rightarrow> bin_label option list \<Rightarrow> obj" where
  "set_labels (Table f) labels = Table (f\<lparr>consumption_level := Some labels\<rparr>)"
| "set_labels (Grouped g) labels = Grouped (g\<lparr>grouped_consumption_level := Some labels\<rparr>)"

text \<open>
  Line 68: \<open>groupby(['studytime','internet'], observed=True)['GPA'].mean().reset_index()\<close>.
\<close>

definition key_sun :: "view_row \<Rightarrow> (studytime_cat \<times> string) option" where
  "key_sun v =
     (case (v_studytime v, v_internet v) of
        (Some c, Some i) \<Rightarrow> Some (c, i)
      | _ \<Rightarrow> None)"

definition grouped_sun :: "library \<Rightarrow> view_row list \<Rightarrow> (studytime_cat \<times> string \<times> rat) list" where
  "grouped_sun lib filtered =
     map (\<lambda>k. (fst k, snd k, fmean lib (map v_GPA (get_group key_sun filtered k))))
       (group_keys key_sun filtered)"

text \<open>The mean of a group that may be empty: \<open>NaN\<close> for no values.\<close>

definition mean :: "library \<Rightarrow> rat list \<Rightarrow> rat option" where
  "mean lib xs = (if xs = [] then None else Some (fmean lib xs))"

text \<open>
  Lines 141--148: \<open>groupby('studytime').agg({'GPA': 'mean'}).reset_index()\<close>, the column
  made categorical again, then \<open>sort_values('studytime')\<close>. This \<open>groupby\<close> passes no
  \<open>observed\<close>, so the default of the installed pandas decides. With \<open>False\<close> every category
  of the column gets a row, and the mean of a category that does not occur is \<open>NaN\<close>.
\<close>

definition groupby_studytime ::
  "library \<Rightarrow> view_row list \<Rightarrow> (studytime_cat \<times> rat option) list" where
  "groupby_studytime lib filtered =
     map (\<lambda>c. (c, mean lib (map v_GPA (get_group v_studytime filtered c))))
       (if observed_default lib then group_keys v_studytime filtered else categories)"

text \<open>\<open>sort_values\<close> on an ordered categorical: by code, missing values last.\<close>

definition sort_code :: "studytime_cat option \<Rightarrow> nat" where
  "sort_code v = (case v of None \<Rightarrow> length categories | Some c \<Rightarrow> cat_code c)"

definition studytime_gpa ::
  "library \<Rightarrow> view_row list \<Rightarrow> (studytime_cat option \<times> rat option) list" where
  "studytime_gpa lib filtered =
     sort_key (\<lambda>p. sort_code (fst p))
       (map (\<lambda>p. (Categorical (Some (cat_label (fst p))), snd p))
          (groupby_studytime lib filtered))"

text \<open>Line 168: \<open>groupby('sex').agg({'consumptionlevel': 'mean', 'GPA': 'mean'})\<close>.\<close>

definition gender_groups :: "library \<Rightarrow> view_row list \<Rightarrow> (string \<times> rat \<times> rat) list" where
  "gender_groups lib filtered =
     map (\<lambda>s. (s, fmean lib (map v_consumptionlevel (get_group v_sex filtered s)),
                  fmean lib (map v_GPA (get_group v_sex filtered s))))
       (group_keys v_sex filtered)"

subsection \<open>\<open>pd.cut\<close> with \<open>bins=3\<close> and the mean, read in exact arithmetic\<close>

text \<open>
  The steps of \<open>pd.cut\<close> for an integer \<open>bins\<close>, with every number exact. The library
  does them in \<open>float64\<close>; the two agree on a column where no rounding moves a value across
  an edge or makes two edges equal.
\<close>

definition consumption_levels :: "bin_label list" where
  "consumption_levels = [Low, Medium, High]"

text \<open>\<open>np.linspace(start, stop, num, endpoint=True)\<close>: \<open>num\<close> points, the last one \<open>stop\<close>.\<close>

definition linspace :: "rat \<Rightarrow> rat \<Rightarrow> nat \<Rightarrow> rat list" where
  "linspace start stop num =
     map (\<lambda>i. of_nat i * ((stop - start) / of_nat (num - 1)) + start) [0..<num - 1] @ [stop]"

fun lower_first :: "rat \<Rightarrow> rat list \<Rightarrow> rat list" where
  "lower_first adj [] = []"
| "lower_first adj (b # bs) = (b - adj) # bs"

fun list_min :: "rat list \<Rightarrow> rat" where
  "list_min [] = 0"
| "list_min (x # xs) = fold min xs x"

fun list_max :: "rat list \<Rightarrow> rat" where
  "list_max [] = 0"
| "list_max (x # xs) = fold max xs x"

text \<open>
  The bin edges for an integer \<open>bins\<close>: an empty column is refused; otherwise the range of
  the values that occur in the column is divided into \<open>nbins\<close> equal parts, and the lowest
  edge is lowered by 0.1 percent of the range (of the value, when all values are equal).
  \<open>list_min\<close> and \<open>list_max\<close> are only read on a non-empty column.
\<close>

definition nbins_to_bins :: "rat list \<Rightarrow> nat \<Rightarrow> error + rat list" where
  "nbins_to_bins x nbins =
     (if x = [] then Inl ValueError
      else
        let mn = list_min x; mx = list_max x in
        if mn = mx then
          let mn' = mn - (if mn \<noteq> 0 then (1 / 1000) * \<bar>mn\<bar> else 1 / 1000);
              mx' = mx + (if mx \<noteq> 0 then (1 / 1000) * \<bar>mx\<bar> else 1 / 1000)
          in Inr (linspace mn' mx' (nbins + 1))
        else
          let adj = (mx - mn) * (1 / 1000)
          in Inr (lower_first adj (linspace mn mx (nbins + 1))))"

text \<open>\<open>bins.searchsorted(v, side='left')\<close> on ascending edges: how many edges are below \<open>v\<close>.\<close>

definition searchsorted :: "rat list \<Rightarrow> rat \<Rightarrow> nat" where
  "searchsorted bins v = length (filter (\<lambda>b. b < v) bins)"

fun is_lowest :: "rat list \<Rightarrow> rat \<Rightarrow> bool" where
  "is_lowest [] v = False"
| "is_lowest (b # bs) v = (v = b)"

text \<open>
  The label of one value: edge interval \<open>i\<close> is \<open>(bins[i-1], bins[i]]\<close>;
  \<open>include_lowest=True\<close> puts a value equal to the lowest edge into the first interval;
  a value outside all intervals is \<open>NaN\<close>.
\<close>

definition bin_of :: "rat list \<Rightarrow> rat \<Rightarrow> bin_label option" where
  "bin_of bins v =
     (let i = (if is_lowest bins v then 1 else searchsorted bins v)
      in if i = length bins \<or> i = 0 then None
         else if i - 1 < length consumption_levels then Some (consumption_levels ! (i - 1))
         else None)"

definition cut :: "rat list \<Rightarrow> error + bin_label option list" where
  "cut x =
     (case nbins_to_bins x 3 of
        Inl e \<Rightarrow> Inl e
      | Inr bins \<Rightarrow> Inr (map (bin_of bins) x))"

fun exact_cut :: "column \<Rightarrow> error + bin_label option list" where
  "exact_cut (IntColumn xs) = cut (map int_value xs)"
| "exact_cut (FloatColumn xs) = cut xs"

definition exact_mean :: "rat list \<Rightarrow> rat" where
  "exact_mean xs = sum_list xs / of_nat (length xs)"

text \<open>
  The library in exact arithmetic, with a plotly that accepts every call. The concrete runs
  below use it, on data where \<open>float64\<close> computes the same values.
\<close>

definition exact_library :: "bool \<Rightarrow> library" where
  "exact_library observed =
     \<lparr> observed_default = observed, fmean = exact_mean, pd_cut = exact_cut,
       px_ok = (\<lambda>p. True) \<rparr>"

text \<open>
  For comparison with \<open>cut\<close>: the label of a value when the range from \<open>mn\<close> to \<open>mx\<close> is
  divided into three equal parts, each part closed to the right and the first one holding
  \<open>mn\<close> as well; a range of a single value is labelled as its middle.
\<close>

definition range_label :: "rat \<Rightarrow> rat \<Rightarrow> rat \<Rightarrow> bin_label" where
  "range_label mn mx v =
     (if mn = mx then Medium
      else if v \<le> mn + (mx - mn) / 3 then Low
      else if v \<le> mn + 2 * (mx - mn) / 3 then Medium
      else High)"

subsection \<open>The store\<close>

type_synonym addr = nat

text \<open>The store is the list of the objects made so far; a reference is a position in it.\<close>

type_synonym store = "obj list"

definition lookup :: "store \<Rightarrow> addr \<Rightarrow> obj option" where
  "lookup h a = (if a < length h then Some (h ! a) else None)"

definition alloc :: "obj \<Rightarrow> store \<Rightarrow> addr \<times> store" where
  "alloc v h = (length h, h @ [v])"

text \<open>\<open>df[mask]\<close>: the rows where the mask holds, in every column.\<close>

definition select_rows :: "(row \<Rightarrow> bool) \<Rightarrow> frame \<Rightarrow> frame" where
  "select_rows p f =
     \<lparr> rows = filter p (rows f),
       consumption_level =
         map_option (\<lambda>ls. map snd (filter (\<lambda>q. p (fst q)) (zip (rows f) ls)))
           (consumption_level f) \<rparr>"

text \<open>The module-level name \<open>selected_data\<close> refers to the first object made.\<close>

definition selected_data_ref :: addr where
  "selected_data_ref = 0"

definition startup :: "raw_row list \<Rightarrow> store" where
  "startup data = [Table \<lparr> rows = selected_data data, consumption_level = None \<rparr>]"

subsection \<open>\<open>generate_figures\<close> (lines 50--236)\<close>

text \<open>The seven figures, each as the data its plotly call draws.\<close>

record figures =
  fig_sunburst :: "(studytime_cat \<times> string \<times> rat) list"
  fig_scatter :: obj
  fig_box :: "(bin_label option \<times> rat) list"
  fig_line :: "(studytime_cat option \<times> rat option) list"
  fig_bar :: "(string \<times> rat \<times> rat) list"
  fig_hist :: "rat list"
  fig_violin :: "(string option \<times> rat) list"

text \<open>
  Lines 118--236, after the column has been assigned: \<open>filtered\<close> is the frame with the new
  column. The calls are made in the order of the source, and the first one that raises ends
  the function.
\<close>

definition charts_after_cut ::
  "library \<Rightarrow> obj \<Rightarrow> (studytime_cat \<times> string \<times> rat) list \<Rightarrow> obj \<Rightarrow> bin_label option list
     \<Rightarrow> error + figures" where
  "charts_after_cut lib filtered sun grouped labels =
     (if \<not> px_ok lib (Box filtered) then Inl PlotlyError
      else if \<not> px_ok lib (Line (studytime_gpa lib (view filtered))) then Inl PlotlyError
      else if \<not> px_ok lib (Bar (gender_groups lib (view filtered))) then Inl PlotlyError
      else if \<not> px_ok lib (Histogram filtered) then Inl PlotlyError
      else if \<not> px_ok lib (Violin filtered) then Inl PlotlyError
      else
        Inr \<lparr> fig_sunburst = sun,
              fig_scatter = grouped,
              fig_box = zip labels (map v_GPA (view filtered)),
              fig_line = studytime_gpa lib (view filtered),
              fig_bar = gender_groups lib (view filtered),
              fig_hist = map v_absences (view filtered),
              fig_violin = map (\<lambda>v. (v_higher_education v, v_GPA v)) (view filtered) \<rparr>)"

text \<open>
  The arguments are references. \<open>px.sunburst\<close> and \<open>px.scatter\<close> are called first; then
  line 112 assigns the column \<open>consumption_level\<close> of the frame \<open>filtered_data\<close> refers to
  (an assignment of another length than the frame raises \<open>ValueError\<close>). When a call before
  the assignment raises, nothing has been assigned; when a later one raises, the column
  stays assigned. \<open>BadReference\<close> stands for a reference to no object, which Python does
  not have: it only makes the function total.
\<close>

definition generate_figures ::
  "library \<Rightarrow> addr \<Rightarrow> addr \<Rightarrow> store \<Rightarrow> (error + figures) \<times> store" where
  "generate_figures lib filtered_data grouped_data h =
     (case (lookup h filtered_data, lookup h grouped_data) of
        (Some f, Some g) \<Rightarrow>
          (if \<not> px_ok lib (Sunburst (grouped_sun lib (view f))) then (Inl PlotlyError, h)
           else if \<not> px_ok lib (Scatter g) then (Inl PlotlyError, h)
           else
             (case pd_cut lib (levels f) of
                Inl e \<Rightarrow> (Inl e, h)
              | Inr labels \<Rightarrow>
                  (if length labels \<noteq> length (view f) then (Inl ValueError, h)
                   else
                     (charts_after_cut lib (set_labels f labels) (grouped_sun lib (view f)) g
                        labels,
                      h[filtered_data := set_labels f labels]))))
      | _ \<Rightarrow> (Inl BadReference, h))"

subsection \<open>\<open>update_plots\<close> (lines 324--351)\<close>

text \<open>
  Lines 334--345, the filter and group step: \<open>filtered_data\<close> is a fresh copy, of the whole
  of \<open>selected_data\<close> for \<open>'All'\<close> and of the rows whose \<open>sex\<close> equals the selection
  otherwise (a missing \<open>sex\<close> equals no selection); \<open>grouped_data\<close> is a fresh frame. The
  result is the two references and the store. The name \<open>selected_data\<close> is bound once, at
  line 44, to a frame with the ten columns; \<open>BadReference\<close> stands for any other store.
\<close>

definition filter_and_group ::
  "library \<Rightarrow> string \<Rightarrow> store \<Rightarrow> error + (addr \<times> addr \<times> store)" where
  "filter_and_group lib selected_gender h =
     (case lookup h selected_data_ref of
        Some (Table sd) \<Rightarrow>
          (let (filtered_data, h1) =
                 (if selected_gender = ''All'' then alloc (Table sd) h
                  else alloc (Table (select_rows (\<lambda>r. sex r = Some selected_gender) sd)) h);
               (grouped_data, h2) =
                 alloc (Grouped
                   \<lparr> grouped_rows = groupby_mean lib
                       (if selected_gender = ''All'' then rows sd
                        else rows (select_rows (\<lambda>r. sex r = Some selected_gender) sd)),
                     grouped_consumption_level = None \<rparr>) h1
           in Inr (filtered_data, grouped_data, h2))
      | _ \<Rightarrow> Inl BadReference)"

definition update_plots :: "library \<Rightarrow> string \<Rightarrow> store \<Rightarrow> (error + figures) \<times> store" where
  "update_plots lib selected_gender h =
     (case filter_and_group lib selected_gender h of
        Inl e \<Rightarrow> (Inl e, h)
      | Inr (filtered_data, grouped_data, h2) \<Rightarrow>
          generate_figures lib filtered_data grouped_data h2)"

text \<open>A sequence of control events, each run to completion on the store the last one left.\<close>

fun run_events :: "library \<Rightarrow> string list \<Rightarrow> store \<Rightarrow> store" where
  "run_events lib [] h = h"
| "run_events lib (e # es) h = run_events lib es (snd (update_plots lib e h))"

subsection \<open>What one control event produces\<close>

text \<open>The frame \<open>filtered_data\<close> and the frame \<open>grouped_data\<close> of lines 334--345.\<close>

definition filtered_table :: "library \<Rightarrow> string \<Rightarrow> store \<Rightarrow> frame option" where
  "filtered_table lib selected_gender h =
     (case filter_and_group lib selected_gender h of
        Inl e \<Rightarrow> None
      | Inr (filtered_data, grouped_data, h2) \<Rightarrow>
          (case lookup h2 filtered_data of Some (Table f) \<Rightarrow> Some f | _ \<Rightarrow> None))"

definition grouped_table :: "library \<Rightarrow> string \<Rightarrow> store \<Rightarrow> grouped_row list option" where
  "grouped_table lib selected_gender h =
     (case filter_and_group lib selected_gender h of
        Inl e \<Rightarrow> None
      | Inr (filtered_data, grouped_data, h2) \<Rightarrow>
          (case lookup h2 grouped_data of
             Some (Grouped g) \<Rightarrow> Some (grouped_rows g)
           | _ \<Rightarrow> None))"

definition grouped_key :: "grouped_row \<Rightarrow> group_key" where
  "grouped_key g = (g_sex g, g_studytime g, g_internet g, g_higher_education g)"

subsection \<open>Sample rows of the CSV\<close>

definition student_a :: raw_row where
  "student_a =
     \<lparr> csv_sex = Some ''F'', csv_studytime = 1, Dalc = 1, Walc = 2, G3 = 11,
       higher = Some ''yes'', csv_internet = Some ''no'', csv_failures = 0, csv_freetime = 3,
       csv_traveltime = 1, csv_absences = 4 \<rparr>"

definition student_b :: raw_row where
  "student_b =
     \<lparr> csv_sex = Some ''M'', csv_studytime = 3, Dalc = 5, Walc = 3, G3 = 20,
       higher = Some ''no'', csv_internet = Some ''yes'', csv_failures = 1, csv_freetime = 2,
       csv_traveltime = 2, csv_absences = 0 \<rparr>"

text \<open>A row with a study time code that the dictionary of line 22 does not have.\<close>

definition student_c :: raw_row where
  "student_c =
     \<lparr> csv_sex = Some ''M'', csv_studytime = 5, Dalc = 2, Walc = 2, G3 = 9,
       higher = Some ''yes'', csv_internet = Some ''yes'', csv_failures = 0, csv_freetime = 4,
       csv_traveltime = 1, csv_absences = 2 \<rparr>"

text \<open>A row whose \<open>sex\<close> is neither \<open>F\<close> nor \<open>M\<close>.\<close>

definition student_d :: raw_row where
  "student_d =
     \<lparr> csv_sex = Some ''Other'', csv_studytime = 2, Dalc = 1, Walc = 1, G3 = 14,
       higher = Some ''yes'', csv_internet = Some ''yes'', csv_failures = 0, csv_freetime = 3,
       csv_traveltime = 1, csv_absences = 6 \<rparr>"

text \<open>A row whose \<open>internet\<close> cell is missing.\<close>

definition student_e :: raw_row where
  "student_e =
     \<lparr> csv_sex = Some ''F'', csv_studytime = 2, Dalc = 1, Walc = 3, G3 = 12,
       higher = Some ''yes'', csv_internet = None, csv_failures = 0, csv_freetime = 3,
       csv_traveltime = 1, csv_absences = 1 \<rparr>"

text \<open>
  The store in which \<open>update_plots\<close> calls \<open>generate_figures\<close> for the first event \<open>All\<close> on
  \<open>student_a\<close> and \<open>student_b\<close>: \<open>selected_data\<close>, its copy, the grouped frame.
\<close>

definition sample_store :: store where
  "sample_store =
     [Table \<lparr> rows = selected_data [student_a, student_b], consumption_level = None \<rparr>,
      Table \<lparr> rows = selected_data [student_a, student_b], consumption_level = None \<rparr>,
      Grouped \<lparr> grouped_rows = groupby_mean (exact_library False)
                  (selected_data [student_a, student_b]),
                grouped_consumption_level = None \<rparr>]"

text \<open>A plotly that refuses the scatter plot and accepts every other call.\<close>

definition no_scatter_library :: library where
  "no_scatter_library =
     (exact_library False)\<lparr>px_ok := (\<lambda>p. case p of Scatter g \<Rightarrow> False | _ \<Rightarrow> True)\<rparr>"

section \<open>Properties\<close>

subsection \<open>Column derivation\<close>

lemma sint_times_5:
  fixes x :: int64
  assumes "- (2 ^ 63) \<le> sint x * 5" and "sint x * 5 < 2 ^ 63"
  shows "sint (x * 5) = sint x * 5"
proof -
  have "sint (x * 5) = signed_take_bit 63 (sint x * sint (5 :: int64))"
    by (simp add: sint_word_ariths)
  also have "\<dots> = signed_take_bit 63 (sint x * 5)"
    by simp
  also have "\<dots> = sint x * 5"
    using assms by (simp add: signed_take_bit_int_eq_self)
  finally show ?thesis .
qed

lemma sint_max_axis1: "sint (max_axis1 a b) = max (sint a) (sint b)"
  by (simp add: max_axis1_def word_sless_alt max_def)

lemma Categorical_map:
  "Categorical (studytime_map c) =
     (if c = 1 then Some Lt2 else if c = 2 then Some H2to5 else if c = 3 then Some H5to10
      else if c = 4 then Some Gt10 else None)"
  by (simp add: Categorical_def studytime_map_def categories_def)

lemma length_selected_data: "length (selected_data data) = length data"
  by (simp add: selected_data_def)

text \<open>
  Claim C9. For every row, \<open>GPA\<close> is \<open>G3 * 5\<close>: as \<open>int64\<close> values always, as integers
  whenever the product fits into 64 bits; for \<open>G3\<close> on the scale 0 to 20, \<open>GPA\<close> lies
  between 0 and 100.
\<close>

theorem GPA_is_G3_times_5:
  "GPA (derive_row r) = G3 r * 5 \<and>
   map GPA (selected_data data) = map (\<lambda>r. G3 r * 5) data \<and>
   (- (2 ^ 63) \<le> sint (G3 r) * 5 \<and> sint (G3 r) * 5 < 2 ^ 63 \<longrightarrow>
      sint (GPA (derive_row r)) = sint (G3 r) * 5) \<and>
   (0 \<le> sint (G3 r) \<and> sint (G3 r) \<le> 20 \<longrightarrow>
      sint (GPA (derive_row r)) = sint (G3 r) * 5 \<and>
      0 \<le> sint (GPA (derive_row r)) \<and> sint (GPA (derive_row r)) \<le> 100)"
proof -
  have gpa: "GPA (derive_row r) = G3 r * 5" for r
    by (simp add: derive_row_def)
  have fits: "sint (G3 r * 5) = sint (G3 r) * 5"
    if "- (2 ^ 63) \<le> sint (G3 r) * 5" and "sint (G3 r) * 5 < 2 ^ 63"
    using that by (rule sint_times_5)
  have scale: "sint (G3 r * 5) = sint (G3 r) * 5"
    if "0 \<le> sint (G3 r)" and "sint (G3 r) \<le> 20"
    using that by (intro sint_times_5) simp_all
  show ?thesis
    using fits scale by (simp add: gpa selected_data_def)
qed

theorem GPA_is_G3_times_5_witness:
  "0 \<le> sint (G3 student_a) \<and> sint (G3 student_a) \<le> 20 \<and>
   - (2 ^ 63) \<le> sint (G3 student_a) * 5 \<and> sint (G3 student_a) * 5 < 2 ^ 63 \<and>
   sint (GPA (derive_row student_a)) = 55 \<and>
   map GPA (selected_data [student_a, student_b]) = [55, 100]"
  using GPA_is_G3_times_5 [of student_a "[student_a, student_b]"]
  by (simp add: student_a_def student_b_def)

text \<open>
  Claim C10. For every row, \<open>consumptionlevel\<close> is the larger of \<open>Dalc\<close> and \<open>Walc\<close>; when
  both lie between 1 and 5, so does \<open>consumptionlevel\<close>.
\<close>

theorem consumptionlevel_is_max:
  "consumptionlevel (derive_row r) = max_axis1 (Dalc r) (Walc r) \<and>
   sint (consumptionlevel (derive_row r)) = max (sint (Dalc r)) (sint (Walc r)) \<and>
   map consumptionlevel (selected_data data) = map (\<lambda>r. max_axis1 (Dalc r) (Walc r)) data \<and>
   (1 \<le> sint (Dalc r) \<and> sint (Dalc r) \<le> 5 \<and> 1 \<le> sint (Walc r) \<and> sint (Walc r) \<le> 5 \<longrightarrow>
      1 \<le> sint (consumptionlevel (derive_row r)) \<and>
      sint (consumptionlevel (derive_row r)) \<le> 5)"
proof -
  have cl: "consumptionlevel (derive_row r) = max_axis1 (Dalc r) (Walc r)" for r
    by (simp add: derive_row_def)
  show ?thesis
    by (simp add: cl sint_max_axis1 selected_data_def) linarith
qed

theorem consumptionlevel_is_max_witness:
  "1 \<le> sint (Dalc student_a) \<and> sint (Dalc student_a) \<le> 5 \<and>
   1 \<le> sint (Walc student_a) \<and> sint (Walc student_a) \<le> 5 \<and>
   sint (consumptionlevel (derive_row student_a)) = 2"
  using consumptionlevel_is_max [of student_a "[]"]
  by (simp add: student_a_def sint_max_axis1)

text \<open>
  Claim C4 says that a study time code outside 1 to 4 makes the derivation fail. The
  derivation has no failure: \<open>map\<close> turns the code into a missing value, and the row is
  derived with a missing category, as for \<open>student_c\<close> with code 5.
\<close>

theorem unmapped_studytime_counterexample:
  "csv_studytime student_c \<notin> {1, 2, 3, 4} \<and>
   selected_data [student_c] =
     [\<lparr> sex = Some ''Male'', studytime = None, internet = Some ''yes'',
        higher_education = Some ''yes'', failures = 0, freetime = 4, traveltime = 1,
        consumptionlevel = 2, absences = 2, GPA = 45 \<rparr>]"
  by (simp add: selected_data_def student_c_def derive_row_def Categorical_map replace_sex_def
      max_axis1_def word_sless_alt)

text \<open>
  Claim C4, amended. A row is derived for every row of the CSV; its category is missing
  exactly when the study time code is outside 1 to 4, and is the category of the code
  otherwise.
\<close>

theorem unmapped_studytime_is_missing:
  "length (selected_data data) = length data \<and>
   (csv_studytime r \<notin> {1, 2, 3, 4} \<longrightarrow> studytime (derive_row r) = None) \<and>
   (csv_studytime r = 1 \<longrightarrow> studytime (derive_row r) = Some Lt2) \<and>
   (csv_studytime r = 2 \<longrightarrow> studytime (derive_row r) = Some H2to5) \<and>
   (csv_studytime r = 3 \<longrightarrow> studytime (derive_row r) = Some H5to10) \<and>
   (csv_studytime r = 4 \<longrightarrow> studytime (derive_row r) = Some Gt10)"
  by (simp add: length_selected_data derive_row_def Categorical_map)

theorem unmapped_studytime_is_missing_witness:
  "csv_studytime student_c \<notin> {1, 2, 3, 4} \<and> studytime (derive_row student_c) = None \<and>
   csv_studytime student_a = 1 \<and> studytime (derive_row student_a) = Some Lt2 \<and>
   csv_studytime student_d = 2 \<and> studytime (derive_row student_d) = Some H2to5 \<and>
   csv_studytime student_b = 3 \<and> studytime (derive_row student_b) = Some H5to10 \<and>
   csv_studytime (student_b\<lparr>csv_studytime := 4\<rparr>) = 4 \<and>
   studytime (derive_row (student_b\<lparr>csv_studytime := 4\<rparr>)) = Some Gt10"
  using unmapped_studytime_is_missing [of "[]" student_c]
    unmapped_studytime_is_missing [of "[]" student_a]
    unmapped_studytime_is_missing [of "[]" student_d]
    unmapped_studytime_is_missing [of "[]" student_b]
    unmapped_studytime_is_missing [of "[]" "student_b\<lparr>csv_studytime := 4\<rparr>"]
  by (simp add: student_a_def student_b_def student_c_def student_d_def)

subsection \<open>The store across control events\<close>

lemma lookup_append_old: "a < length h \<Longrightarrow> lookup (h @ xs) a = lookup h a"
  by (simp add: lookup_def nth_append)

lemma lookup_update_other: "a \<noteq> b \<Longrightarrow> lookup (h[b := v]) a = lookup h a"
  by (simp add: lookup_def)

lemma filter_and_group_eq:
  assumes "lookup h selected_data_ref = Some (Table sd)"
  shows "filter_and_group lib sel h =
           Inr (length h, Suc (length h),
                h @ [Table (if sel = ''All'' then sd else select_rows (\<lambda>r. sex r = Some sel) sd),
                     Grouped
                       \<lparr> grouped_rows = groupby_mean lib
                           (rows (if sel = ''All'' then sd
                                  else select_rows (\<lambda>r. sex r = Some sel) sd)),
                         grouped_consumption_level = None \<rparr>])"
  using assms by (simp add: filter_and_group_def alloc_def)

lemma filter_and_group_cases:
  "filter_and_group lib sel h = Inl BadReference \<or>
   (\<exists>f g. filter_and_group lib sel h = Inr (length h, Suc (length h), h @ [Table f, Grouped g]))"
proof (cases "lookup h selected_data_ref")
  case None
  then show ?thesis by (simp add: filter_and_group_def)
next
  case (Some v)
  then show ?thesis
    by (cases v) (simp_all add: filter_and_group_def alloc_def)
qed

lemma generate_figures_length:
  "length (snd (generate_figures lib fa ga h)) = length h"
  by (simp add: generate_figures_def split: option.splits sum.splits)

lemma generate_figures_other:
  "a \<noteq> fa \<Longrightarrow> lookup (snd (generate_figures lib fa ga h)) a = lookup h a"
  by (simp add: generate_figures_def lookup_update_other split: option.splits sum.splits)



lemma update_plots_length: "length h \<le> length (snd (update_plots lib sel h))"
proof -
  from filter_and_group_cases [of lib sel h] show ?thesis
  proof
    assume "filter_and_group lib sel h = Inl BadReference"
    then show ?thesis by (simp add: update_plots_def)
  next
    assume "\<exists>f g. filter_and_group lib sel h = Inr (length h, Suc (length h), h @ [Table f, Grouped g])"
    then obtain f g where
      fg: "filter_and_group lib sel h = Inr (length h, Suc (length h), h @ [Table f, Grouped g])"
      by blast
    show ?thesis
      by (simp add: update_plots_def fg generate_figures_length)
  qed
qed

lemma update_plots_selected:
  assumes "h \<noteq> []"
  shows "lookup (snd (update_plots lib sel h)) selected_data_ref = lookup h selected_data_ref"
proof -
  have pos: "selected_data_ref < length h"
    using assms by (simp add: selected_data_ref_def)
  from filter_and_group_cases [of lib sel h] show ?thesis
  proof
    assume "filter_and_group lib sel h = Inl BadReference"
    then show ?thesis by (simp add: update_plots_def)
  next
    assume "\<exists>f g. filter_and_group lib sel h = Inr (length h, Suc (length h), h @ [Table f, Grouped g])"
    then obtain f g where
      fg: "filter_and_group lib sel h = Inr (length h, Suc (length h), h @ [Table f, Grouped g])"
      by blast
    have "selected_data_ref \<noteq> length h"
      using pos by simp
    then have "lookup (snd (update_plots lib sel h)) selected_data_ref =
               lookup (h @ [Table f, Grouped g]) selected_data_ref"
      by (simp add: update_plots_def fg generate_figures_other)
    then show ?thesis
      using pos by (simp add: lookup_append_old)
  qed
qed

lemma update_plots_nonempty: "h \<noteq> [] \<Longrightarrow> snd (update_plots lib sel h) \<noteq> []"
  using update_plots_length [of h lib sel] by (cases h) auto

lemma run_events_selected:
  "h \<noteq> [] \<Longrightarrow> lookup (run_events lib es h) selected_data_ref = lookup h selected_data_ref"
proof (induction es arbitrary: h)
  case Nil
  then show ?case by simp
next
  case (Cons e es)
  then show ?case
    by (simp add: update_plots_nonempty update_plots_selected)
qed

lemma reachable_selected_data:
  "lookup (run_events lib es (startup data)) selected_data_ref =
     Some (Table \<lparr> rows = selected_data data, consumption_level = None \<rparr>)"
proof -
  have "lookup (run_events lib es (startup data)) selected_data_ref =
        lookup (startup data) selected_data_ref"
    by (rule run_events_selected) (simp add: startup_def)
  then show ?thesis
    by (simp add: startup_def lookup_def selected_data_ref_def)
qed

lemma filtered_table_eq:
  assumes "lookup h selected_data_ref = Some (Table sd)"
  shows "filtered_table lib sel h =
           Some (if sel = ''All'' then sd else select_rows (\<lambda>r. sex r = Some sel) sd)"
  by (simp add: filtered_table_def filter_and_group_eq [OF assms] lookup_def nth_append)

lemma grouped_table_eq:
  assumes "lookup h selected_data_ref = Some (Table sd)"
  shows "grouped_table lib sel h =
           Some (groupby_mean lib
             (rows (if sel = ''All'' then sd else select_rows (\<lambda>r. sex r = Some sel) sd)))"
  by (simp add: grouped_table_def filter_and_group_eq [OF assms] lookup_def nth_append)

lemma select_rows_plain:
  "select_rows p \<lparr> rows = rs, consumption_level = None \<rparr> =
     \<lparr> rows = filter p rs, consumption_level = None \<rparr>"
  by (simp add: select_rows_def)

lemma reachable_filtered_table:
  "filtered_table lib sel (run_events lib es (startup data)) =
     Some \<lparr> rows = (if sel = ''All'' then selected_data data
                     else filter (\<lambda>r. sex r = Some sel) (selected_data data)),
            consumption_level = None \<rparr>"
  by (simp add: filtered_table_eq [OF reachable_selected_data] select_rows_plain)

lemma reachable_grouped_table:
  "grouped_table lib sel (run_events lib es (startup data)) =
     Some (groupby_mean lib (if sel = ''All'' then selected_data data
                         else filter (\<lambda>r. sex r = Some sel) (selected_data data)))"
  by (simp add: grouped_table_eq [OF reachable_selected_data] select_rows_plain)

lemma length_filter_count_list: "length (filter (\<lambda>r. f r = v) xs) = count_list (map f xs) v"
  by (induction xs) simp_all

lemma mset_two_values:
  assumes "\<forall>r \<in> set xs. f r = a \<or> f r = b" and "a \<noteq> b"
  shows "mset (filter (\<lambda>r. f r = a) xs) + mset (filter (\<lambda>r. f r = b) xs) = mset xs"
  using assms by (induction xs) auto

text \<open>
  Claim C3. The frame \<open>selected_data\<close> refers to is the same after any sequence of control
  events as at startup: same rows, same cells, no column added. In every single event the
  references \<open>filtered_data\<close> and \<open>grouped_data\<close> differ from \<open>selected_data\<close>, so the
  column assignment in \<open>generate_figures\<close> does not reach it, and the whole of
  \<open>update_plots\<close> leaves the object unchanged.
\<close>

theorem working_table_never_mutated:
  "lookup (run_events lib events (startup data)) selected_data_ref =
     Some (Table \<lparr> rows = selected_data data, consumption_level = None \<rparr>) \<and>
   (h \<noteq> [] \<longrightarrow>
      lookup (snd (update_plots lib sel h)) selected_data_ref = lookup h selected_data_ref) \<and>
   (h \<noteq> [] \<longrightarrow>
      (\<forall>filtered_data grouped_data h2.
         filter_and_group lib sel h = Inr (filtered_data, grouped_data, h2) \<longrightarrow>
           filtered_data \<noteq> selected_data_ref \<and> grouped_data \<noteq> selected_data_ref \<and>
           lookup h2 selected_data_ref = lookup h selected_data_ref))"
proof (intro conjI impI allI)
  show "lookup (run_events lib events (startup data)) selected_data_ref =
     Some (Table \<lparr> rows = selected_data data, consumption_level = None \<rparr>)"
    by (rule reachable_selected_data)
next
  assume "h \<noteq> []"
  then show "lookup (snd (update_plots lib sel h)) selected_data_ref = lookup h selected_data_ref"
    by (rule update_plots_selected)
next
  fix filtered_data grouped_data h2
  assume ne: "h \<noteq> []" and fg: "filter_and_group lib sel h = Inr (filtered_data, grouped_data, h2)"
  from filter_and_group_cases [of lib sel h] fg obtain f g where
    eq: "filtered_data = length h" "grouped_data = Suc (length h)" "h2 = h @ [Table f, Grouped g]"
    by auto
  have pos: "selected_data_ref < length h"
    using ne by (simp add: selected_data_ref_def)
  show "filtered_data \<noteq> selected_data_ref" using pos eq by simp
  show "grouped_data \<noteq> selected_data_ref" using pos eq by simp
  show "lookup h2 selected_data_ref = lookup h selected_data_ref"
    using pos eq by (simp add: lookup_append_old)
qed

theorem working_table_never_mutated_witness:
  "startup [student_a, student_b] \<noteq> [] \<and>
   filter_and_group (exact_library False) ''Female'' (startup [student_a, student_b]) =
     Inr (1, 2, startup [student_a, student_b] @
       [Table \<lparr> rows = [derive_row student_a], consumption_level = None \<rparr>,
        Grouped \<lparr> grouped_rows = groupby_mean (exact_library False) [derive_row student_a],
                  grouped_consumption_level = None \<rparr>]) \<and>
   (1 :: nat) \<noteq> selected_data_ref \<and>
   lookup (snd (update_plots (exact_library False) ''Female'' (startup [student_a, student_b]))) selected_data_ref =
     Some (Table \<lparr> rows = [derive_row student_a, derive_row student_b],
                   consumption_level = None \<rparr>) \<and>
   lookup (run_events (exact_library False) [''All'', ''Female'', ''Nobody'', ''All''] (startup [student_a, student_b]))
       selected_data_ref =
     Some (Table \<lparr> rows = [derive_row student_a, derive_row student_b],
                   consumption_level = None \<rparr>)"
proof -
  have fg: "filter_and_group (exact_library False) ''Female'' (startup [student_a, student_b]) =
     Inr (1, 2, startup [student_a, student_b] @
       [Table \<lparr> rows = [derive_row student_a], consumption_level = None \<rparr>,
        Grouped \<lparr> grouped_rows = groupby_mean (exact_library False) [derive_row student_a],
                  grouped_consumption_level = None \<rparr>])"
    by code_simp
  have ne: "startup [student_a, student_b] \<noteq> []"
    by (simp add: startup_def)
  show ?thesis
    using working_table_never_mutated [of "exact_library False" "[''All'', ''Female'', ''Nobody'', ''All'']"
        "[student_a, student_b]" "startup [student_a, student_b]" "''Female''"] ne fg
    by (simp add: selected_data_def startup_def lookup_def selected_data_ref_def)
qed

subsection \<open>Filtering\<close>

text \<open>
  Claim C1. In every reachable store, the selection \<open>All\<close> yields a frame with all rows of
  \<open>selected_data\<close>; \<open>Male\<close> and \<open>Female\<close> yield exactly the rows with that \<open>sex\<close>, in
  number the count of that value in the column; and when no other value occurs, the two
  filtered frames together hold the rows of the \<open>All\<close> frame, as multisets and as sets.
\<close>

theorem filtering_by_gender:
  "\<exists>f_all f_male f_female.
     filtered_table lib ''All'' (run_events lib events (startup data)) = Some f_all \<and>
     filtered_table lib ''Male'' (run_events lib events (startup data)) = Some f_male \<and>
     filtered_table lib ''Female'' (run_events lib events (startup data)) = Some f_female \<and>
     consumption_level f_all = None \<and> consumption_level f_male = None \<and>
     consumption_level f_female = None \<and>
     rows f_all = selected_data data \<and>
     length (rows f_all) = length (selected_data data) \<and>
     rows f_male = filter (\<lambda>r. sex r = Some ''Male'') (selected_data data) \<and>
     length (rows f_male) = count_list (map sex (selected_data data)) (Some ''Male'') \<and>
     rows f_female = filter (\<lambda>r. sex r = Some ''Female'') (selected_data data) \<and>
     length (rows f_female) = count_list (map sex (selected_data data)) (Some ''Female'') \<and>
     ((\<forall>r \<in> set (selected_data data). sex r = Some ''Male'' \<or> sex r = Some ''Female'') \<longrightarrow>
        mset (rows f_male) + mset (rows f_female) = mset (rows f_all) \<and>
        set (rows f_male) \<union> set (rows f_female) = set (rows f_all))"
proof -
  let ?W = "selected_data data"
  have ms: "mset (filter (\<lambda>r. sex r = Some ''Male'') ?W) + mset (filter (\<lambda>r. sex r = Some ''Female'') ?W)
              = mset ?W"
    if "\<forall>r \<in> set ?W. sex r = Some ''Male'' \<or> sex r = Some ''Female''"
    using that by (intro mset_two_values) simp_all
  have un: "set (filter (\<lambda>r. sex r = Some ''Male'') ?W) \<union> set (filter (\<lambda>r. sex r = Some ''Female'') ?W)
              = set ?W"
    if "\<forall>r \<in> set ?W. sex r = Some ''Male'' \<or> sex r = Some ''Female''"
    using that by auto
  have "filtered_table lib ''All'' (run_events lib events (startup data)) =
          Some \<lparr> rows = ?W, consumption_level = None \<rparr>"
    by (simp add: reachable_filtered_table)
  moreover have "filtered_table lib ''Male'' (run_events lib events (startup data)) =
          Some \<lparr> rows = filter (\<lambda>r. sex r = Some ''Male'') ?W, consumption_level = None \<rparr>"
    by (simp add: reachable_filtered_table)
  moreover have "filtered_table lib ''Female'' (run_events lib events (startup data)) =
          Some \<lparr> rows = filter (\<lambda>r. sex r = Some ''Female'') ?W, consumption_level = None \<rparr>"
    by (simp add: reachable_filtered_table)
  ultimately show ?thesis
    using ms un by (simp add: length_filter_count_list del: mset_filter set_filter)
qed

theorem filtering_by_gender_witness:
  "sex (derive_row student_a) = Some ''Female'' \<and> sex (derive_row student_b) = Some ''Male'' \<and>
   filtered_table (exact_library False) ''All'' (run_events (exact_library False) [''Male''] (startup [student_a, student_b, student_a])) =
     Some \<lparr> rows = [derive_row student_a, derive_row student_b, derive_row student_a],
            consumption_level = None \<rparr> \<and>
   filtered_table (exact_library False) ''Male'' (run_events (exact_library False) [''Male''] (startup [student_a, student_b, student_a])) =
     Some \<lparr> rows = [derive_row student_b], consumption_level = None \<rparr> \<and>
   filtered_table (exact_library False) ''Female'' (run_events (exact_library False) [''Male''] (startup [student_a, student_b, student_a])) =
     Some \<lparr> rows = [derive_row student_a, derive_row student_a], consumption_level = None \<rparr> \<and>
   mset [derive_row student_b] + mset [derive_row student_a, derive_row student_a] =
     mset [derive_row student_a, derive_row student_b, derive_row student_a]"
proof -
  have sexes: "sex (derive_row student_a) = Some ''Female''" "sex (derive_row student_b) = Some ''Male''"
    by (simp_all add: derive_row_def student_a_def student_b_def replace_sex_def)
  have all: "\<forall>r \<in> set (selected_data [student_a, student_b, student_a]).
      sex r = Some ''Male'' \<or> sex r = Some ''Female''"
    by (simp add: selected_data_def sexes)
  obtain f_all f_male f_female where
    "filtered_table (exact_library False) ''All'' (run_events (exact_library False) [''Male''] (startup [student_a, student_b, student_a]))
       = Some f_all"
    "filtered_table (exact_library False) ''Male'' (run_events (exact_library False) [''Male''] (startup [student_a, student_b, student_a]))
       = Some f_male"
    "filtered_table (exact_library False) ''Female'' (run_events (exact_library False) [''Male''] (startup [student_a, student_b, student_a]))
       = Some f_female"
    "rows f_all = selected_data [student_a, student_b, student_a]"
    "rows f_male = filter (\<lambda>r. sex r = Some ''Male'') (selected_data [student_a, student_b, student_a])"
    "rows f_female = filter (\<lambda>r. sex r = Some ''Female'') (selected_data [student_a, student_b, student_a])"
    "consumption_level f_all = None" "consumption_level f_male = None"
    "consumption_level f_female = None"
    "mset (rows f_male) + mset (rows f_female) = mset (rows f_all)"
    using filtering_by_gender [of "exact_library False" "[''Male'']" "[student_a, student_b, student_a]"] all
    by blast
  then show ?thesis
    by (cases f_all; cases f_male; cases f_female) (simp add: selected_data_def sexes)
qed

lemma reachable_filter_and_group:
  "filter_and_group lib sel (run_events lib' es (startup data)) =
     Inr (length (run_events lib' es (startup data)),
          Suc (length (run_events lib' es (startup data))),
          run_events lib' es (startup data) @
            [Table \<lparr> rows = (if sel = ''All'' then selected_data data
                               else filter (\<lambda>r. sex r = Some sel) (selected_data data)),
                      consumption_level = None \<rparr>,
             Grouped
               \<lparr> grouped_rows = groupby_mean lib
                   (if sel = ''All'' then selected_data data
                    else filter (\<lambda>r. sex r = Some sel) (selected_data data)),
                 grouped_consumption_level = None \<rparr>])"
  by (simp add: filter_and_group_eq [OF reachable_selected_data] select_rows_plain)

text \<open>
  Claim C5 says that a selection other than \<open>All\<close>, \<open>Male\<close>, \<open>Female\<close> is refused. Lines
  334--337 compare the selection with \<open>'All'\<close> and otherwise filter by equality: the
  selection \<open>Other\<close> yields the rows whose \<open>sex\<close> is \<open>Other\<close> with their grouped frame, and
  the selection \<open>Nobody\<close>, which no row has, yields an empty pair of frames.
\<close>

theorem unsupported_selection_counterexample:
  "''Other'' \<notin> {''All'', ''Male'', ''Female''} \<and>
   filter_and_group (exact_library False) ''Other'' (startup [student_a, student_d]) =
     Inr (1, 2, startup [student_a, student_d] @
       [Table \<lparr> rows =
           [\<lparr> sex = Some ''Other'', studytime = Some H2to5, internet = Some ''yes'',
              higher_education = Some ''yes'', failures = 0, freetime = 3, traveltime = 1,
              consumptionlevel = 1, absences = 6, GPA = 70 \<rparr>],
           consumption_level = None \<rparr>,
        Grouped \<lparr> grouped_rows =
           [\<lparr> g_sex = ''Other'', g_studytime = H2to5, g_internet = ''yes'',
              g_higher_education = ''yes'', g_consumptionlevel = 1, g_failures = 0,
              g_absences = 6, g_GPA = 70 \<rparr>],
           grouped_consumption_level = None \<rparr>]) \<and>
   filter_and_group (exact_library False) ''Nobody'' (startup [student_a, student_d]) =
     Inr (1, 2, startup [student_a, student_d] @
       [Table \<lparr> rows = [], consumption_level = None \<rparr>,
        Grouped \<lparr> grouped_rows = [], grouped_consumption_level = None \<rparr>])"
  by code_simp

text \<open>
  Claim C5, amended. Every selection value is accepted: in every reachable store, and
  whatever the library, the filter and group step returns the two frames and no error: the
  copy of \<open>selected_data\<close> for \<open>All\<close>, the rows whose \<open>sex\<close> equals the selection for any
  other value, and the grouped frame made from them.
\<close>

theorem every_selection_is_filtered:
  "filter_and_group lib sel (run_events lib events (startup data)) =
     Inr (length (run_events lib events (startup data)),
          Suc (length (run_events lib events (startup data))),
          run_events lib events (startup data) @
            [Table \<lparr> rows = (if sel = ''All'' then selected_data data
                               else filter (\<lambda>r. sex r = Some sel) (selected_data data)),
                      consumption_level = None \<rparr>,
             Grouped
               \<lparr> grouped_rows = groupby_mean lib
                   (if sel = ''All'' then selected_data data
                    else filter (\<lambda>r. sex r = Some sel) (selected_data data)),
                 grouped_consumption_level = None \<rparr>])"
  by (rule reachable_filter_and_group)

theorem every_selection_is_filtered_witness:
  "filter_and_group (exact_library False) ''Other''
       (run_events (exact_library False) [] (startup [student_a, student_d])) =
     Inr (1, 2, startup [student_a, student_d] @
       [Table \<lparr> rows = [derive_row student_d], consumption_level = None \<rparr>,
        Grouped \<lparr> grouped_rows = groupby_mean (exact_library False) [derive_row student_d],
                  grouped_consumption_level = None \<rparr>]) \<and>
   filter_and_group (exact_library False) ''Nobody''
       (run_events (exact_library False) [] (startup [student_a, student_d])) =
     Inr (1, 2, startup [student_a, student_d] @
       [Table \<lparr> rows = [], consumption_level = None \<rparr>,
        Grouped \<lparr> grouped_rows = groupby_mean (exact_library False) [],
                  grouped_consumption_level = None \<rparr>])"
proof -
  have sexes: "sex (derive_row student_a) = Some ''Female''"
    "sex (derive_row student_d) = Some ''Other''"
    by (simp_all add: derive_row_def student_a_def student_d_def replace_sex_def)
  show ?thesis
    using every_selection_is_filtered [of "exact_library False" "''Other''" "[]" "[student_a, student_d]"]
      every_selection_is_filtered [of "exact_library False" "''Nobody''" "[]" "[student_a, student_d]"]
    by (simp add: selected_data_def sexes startup_def)
qed

subsection \<open>Grouping\<close>

lemma set_map_filter_keys: "set (List.map_filter key rs) = {k. \<exists>r \<in> set rs. key r = Some k}"
  by (induction rs) (auto split: option.splits)

lemma set_group_keys: "set (group_keys key rs) = {k. \<exists>r \<in> set rs. key r = Some k}"
  by (simp add: group_keys_def set_map_filter_keys)

lemma distinct_group_keys: "distinct (group_keys key rs)"
  by (simp add: group_keys_def)

lemma sorted_group_keys: "sorted (group_keys key rs)"
  by (simp add: group_keys_def)

lemma length_group_keys: "length (group_keys key rs) = card {k. \<exists>r \<in> set rs. key r = Some k}"
  using distinct_card [OF distinct_group_keys, of key rs] by (simp add: set_group_keys)

lemma grouped_key_agg_row: "grouped_key (agg_row lib rs k) = k"
  by (cases k) (simp add: grouped_key_def agg_row_def)

lemma map_grouped_key: "map grouped_key (groupby_mean lib rs) = group_keys key4 rs"
  by (simp add: groupby_mean_def grouped_key_agg_row cong: map_cong)

lemma key4_eq: "key4 r = Some k \<longleftrightarrow>
    (\<exists>s c i h. sex r = Some s \<and> studytime r = Some c \<and> internet r = Some i \<and>
       higher_education r = Some h \<and> k = (s, c, i, h))"
  by (auto simp add: key4_def split: option.splits)

lemma get_group_nonempty: "k \<in> set (group_keys key rs) \<Longrightarrow> get_group key rs k \<noteq> []"
  by (auto simp add: set_group_keys get_group_def filter_empty_conv)

lemma groupby_mean_row:
  assumes "g \<in> set (groupby_mean lib rs)"
  shows "grouped_key g \<in> set (group_keys key4 rs) \<and> g = agg_row lib rs (grouped_key g)"
proof -
  from assms obtain k where k: "k \<in> set (group_keys key4 rs)" "g = agg_row lib rs k"
    by (auto simp add: groupby_mean_def)
  then show ?thesis
    by (simp add: grouped_key_agg_row)
qed

lemma agg_row_sel:
  "g_consumptionlevel (agg_row lib rs k) =
     fmean lib (map (\<lambda>r. int_value (consumptionlevel r)) (get_group key4 rs k))"
  "g_failures (agg_row lib rs k) =
     fmean lib (map (\<lambda>r. int_value (failures r)) (get_group key4 rs k))"
  "g_absences (agg_row lib rs k) =
     fmean lib (map (\<lambda>r. int_value (absences r)) (get_group key4 rs k))"
  "g_GPA (agg_row lib rs k) = fmean lib (map (\<lambda>r. int_value (GPA r)) (get_group key4 rs k))"
  by (cases k; simp add: agg_row_def)+

lemma groupby_mean_means:
  assumes "g \<in> set (groupby_mean lib rs)"
  defines "members \<equiv> filter (\<lambda>r. key4 r = Some (grouped_key g)) rs"
  shows "members \<noteq> []"
    and "g_consumptionlevel g = fmean lib (map (\<lambda>r. int_value (consumptionlevel r)) members)"
    and "g_failures g = fmean lib (map (\<lambda>r. int_value (failures r)) members)"
    and "g_absences g = fmean lib (map (\<lambda>r. int_value (absences r)) members)"
    and "g_GPA g = fmean lib (map (\<lambda>r. int_value (GPA r)) members)"
proof -
  from groupby_mean_row [OF assms(1)]
  have k: "grouped_key g \<in> set (group_keys key4 rs)"
    and g: "g = agg_row lib rs (grouped_key g)"
    by simp_all
  have m: "members = get_group key4 rs (grouped_key g)"
    by (simp add: members_def get_group_def)
  show "members \<noteq> []"
    using get_group_nonempty [OF k] by (simp add: m)
  show "g_consumptionlevel g = fmean lib (map (\<lambda>r. int_value (consumptionlevel r)) members)"
    using agg_row_sel(1) [of lib rs "grouped_key g"] g m by simp
  show "g_failures g = fmean lib (map (\<lambda>r. int_value (failures r)) members)"
    using agg_row_sel(2) [of lib rs "grouped_key g"] g m by simp
  show "g_absences g = fmean lib (map (\<lambda>r. int_value (absences r)) members)"
    using agg_row_sel(3) [of lib rs "grouped_key g"] g m by simp
  show "g_GPA g = fmean lib (map (\<lambda>r. int_value (GPA r)) members)"
    using agg_row_sel(4) [of lib rs "grouped_key g"] g m by simp
qed

text \<open>
  Claim C2 says that the grouped frame has one row per key combination present in the
  filtered frame, for every filtered frame. \<open>groupby\<close> drops a row whose key has a missing
  value: with \<open>student_c\<close>, whose study time code 5 gives a missing category, the selection
  \<open>Male\<close> has a filtered frame of one row and a grouped frame of none.
\<close>

theorem grouped_missing_category_counterexample:
  "filtered_table (exact_library False) ''Male'' (startup [student_a, student_c]) =
     Some \<lparr> rows =
         [\<lparr> sex = Some ''Male'', studytime = None, internet = Some ''yes'',
            higher_education = Some ''yes'', failures = 0, freetime = 4, traveltime = 1,
            consumptionlevel = 2, absences = 2, GPA = 45 \<rparr>],
       consumption_level = None \<rparr> \<and>
   grouped_table (exact_library False) ''Male'' (startup [student_a, student_c]) = Some []"
  by code_simp

text \<open>
  Claim C2, amended. In every reachable store, for every selection and whatever the
  library, the grouped frame has exactly one row per distinct combination of \<open>sex\<close>,
  \<open>studytime\<close>, \<open>internet\<close> and \<open>higher education\<close> that occurs among the rows of the
  filtered frame in which none of the four is missing: its keys are distinct, they are
  exactly those combinations, and their number is the number of rows. A combination that
  does not occur has no row, and a row with a missing key value is in no group. Every
  row's \<open>consumptionlevel\<close>, \<open>failures\<close>, \<open>absences\<close> and \<open>GPA\<close> are the library's mean of
  that column over the rows of its group, in their order, and the group is never empty.
\<close>

theorem grouped_table_groups:
  "\<exists>f g.
     filtered_table lib sel (run_events lib events (startup data)) = Some f \<and>
     grouped_table lib sel (run_events lib events (startup data)) = Some g \<and>
     distinct (map grouped_key g) \<and>
     set (map grouped_key g) =
       {(s, c, i, h) | r s c i h.
          r \<in> set (rows f) \<and> sex r = Some s \<and> studytime r = Some c \<and>
          internet r = Some i \<and> higher_education r = Some h} \<and>
     length g =
       card {(s, c, i, h) | r s c i h.
          r \<in> set (rows f) \<and> sex r = Some s \<and> studytime r = Some c \<and>
          internet r = Some i \<and> higher_education r = Some h} \<and>
     (\<forall>row \<in> set g.
        let members = filter (\<lambda>r. sex r = Some (g_sex row) \<and>
                         studytime r = Some (g_studytime row) \<and>
                         internet r = Some (g_internet row) \<and>
                         higher_education r = Some (g_higher_education row)) (rows f)
        in members \<noteq> [] \<and>
           g_consumptionlevel row = fmean lib (map (\<lambda>r. int_value (consumptionlevel r)) members) \<and>
           g_failures row = fmean lib (map (\<lambda>r. int_value (failures r)) members) \<and>
           g_absences row = fmean lib (map (\<lambda>r. int_value (absences r)) members) \<and>
           g_GPA row = fmean lib (map (\<lambda>r. int_value (GPA r)) members))"
proof -
  let ?F = "if sel = ''All'' then selected_data data
            else filter (\<lambda>r. sex r = Some sel) (selected_data data)"
  let ?f = "\<lparr> rows = ?F, consumption_level = None \<rparr>"
  let ?g = "groupby_mean lib ?F"
  have keys: "{k. \<exists>r \<in> set ?F. key4 r = Some k} =
      {(s, c, i, h) | r s c i h.
          r \<in> set ?F \<and> sex r = Some s \<and> studytime r = Some c \<and>
          internet r = Some i \<and> higher_education r = Some h}"
    unfolding key4_eq by blast
  have members: "filter (\<lambda>r. key4 r = Some (grouped_key row)) ?F =
      filter (\<lambda>r. sex r = Some (g_sex row) \<and> studytime r = Some (g_studytime row) \<and>
                 internet r = Some (g_internet row) \<and>
                 higher_education r = Some (g_higher_education row)) ?F"
    for row
    by (rule filter_cong) (auto simp add: key4_eq grouped_key_def)
  have a: "distinct (map grouped_key ?g)"
    by (simp only: map_grouped_key distinct_group_keys)
  have b: "set (map grouped_key ?g) =
      {(s, c, i, h) | r s c i h.
          r \<in> set ?F \<and> sex r = Some s \<and> studytime r = Some c \<and>
          internet r = Some i \<and> higher_education r = Some h}"
    by (simp only: map_grouped_key set_group_keys keys)
  have "length ?g = length (map grouped_key ?g)"
    by simp
  also have "\<dots> = card {k. \<exists>r \<in> set ?F. key4 r = Some k}"
    by (simp only: map_grouped_key length_group_keys)
  finally have c: "length ?g =
      card {(s, c, i, h) | r s c i h.
          r \<in> set ?F \<and> sex r = Some s \<and> studytime r = Some c \<and>
          internet r = Some i \<and> higher_education r = Some h}"
    by (simp only: keys)
  have d: "\<forall>row \<in> set ?g.
        let members = filter (\<lambda>r. sex r = Some (g_sex row) \<and>
                         studytime r = Some (g_studytime row) \<and>
                         internet r = Some (g_internet row) \<and>
                         higher_education r = Some (g_higher_education row)) ?F
        in members \<noteq> [] \<and>
           g_consumptionlevel row = fmean lib (map (\<lambda>r. int_value (consumptionlevel r)) members) \<and>
           g_failures row = fmean lib (map (\<lambda>r. int_value (failures r)) members) \<and>
           g_absences row = fmean lib (map (\<lambda>r. int_value (absences r)) members) \<and>
           g_GPA row = fmean lib (map (\<lambda>r. int_value (GPA r)) members)"
  proof
    fix row
    assume "row \<in> set ?g"
    from groupby_mean_means [OF this]
    show "let members = filter (\<lambda>r. sex r = Some (g_sex row) \<and>
                         studytime r = Some (g_studytime row) \<and>
                         internet r = Some (g_internet row) \<and>
                         higher_education r = Some (g_higher_education row)) ?F
        in members \<noteq> [] \<and>
           g_consumptionlevel row = fmean lib (map (\<lambda>r. int_value (consumptionlevel r)) members) \<and>
           g_failures row = fmean lib (map (\<lambda>r. int_value (failures r)) members) \<and>
           g_absences row = fmean lib (map (\<lambda>r. int_value (absences r)) members) \<and>
           g_GPA row = fmean lib (map (\<lambda>r. int_value (GPA r)) members)"
      unfolding Let_def members by blast
  qed
  have f: "filtered_table lib sel (run_events lib events (startup data)) = Some ?f"
    by (rule reachable_filtered_table)
  have g: "grouped_table lib sel (run_events lib events (startup data)) = Some ?g"
    by (rule reachable_grouped_table)
  have rows: "rows ?f = ?F"
    by simp
  show ?thesis
    apply (rule exI [of _ ?f])
    apply (rule exI [of _ ?g])
    apply (simp only: rows)
    using f g a b c d by blast
qed

theorem grouped_table_groups_witness:
  "grouped_table (exact_library False) ''All''
       (run_events (exact_library False) []
          (startup [student_a, student_b, student_c, student_e])) =
     Some [\<lparr> g_sex = ''Female'', g_studytime = Lt2, g_internet = ''no'',
              g_higher_education = ''yes'', g_consumptionlevel = 2, g_failures = 0,
              g_absences = 4, g_GPA = 55 \<rparr>,
           \<lparr> g_sex = ''Male'', g_studytime = H5to10, g_internet = ''yes'',
              g_higher_education = ''no'', g_consumptionlevel = 5, g_failures = 1,
              g_absences = 0, g_GPA = 100 \<rparr>] \<and>
   \<lparr> g_sex = ''Female'', g_studytime = Lt2, g_internet = ''no'',
     g_higher_education = ''yes'', g_consumptionlevel = 2, g_failures = 0,
     g_absences = 4, g_GPA = 55 \<rparr>
   \<in> set [\<lparr> g_sex = ''Female'', g_studytime = Lt2, g_internet = ''no'',
              g_higher_education = ''yes'', g_consumptionlevel = 2, g_failures = 0,
              g_absences = 4, g_GPA = 55 \<rparr>,
           \<lparr> g_sex = ''Male'', g_studytime = H5to10, g_internet = ''yes'',
              g_higher_education = ''no'', g_consumptionlevel = 5, g_failures = 1,
              g_absences = 0, g_GPA = 100 \<rparr>] \<and>
   card {(s, c, i, h) | r s c i h.
          r \<in> set (selected_data [student_a, student_b, student_c, student_e]) \<and>
          sex r = Some s \<and> studytime r = Some c \<and> internet r = Some i \<and>
          higher_education r = Some h} = 2"
proof -
  have gt: "grouped_table (exact_library False) ''All''
       (run_events (exact_library False) []
          (startup [student_a, student_b, student_c, student_e])) =
     Some [\<lparr> g_sex = ''Female'', g_studytime = Lt2, g_internet = ''no'',
              g_higher_education = ''yes'', g_consumptionlevel = 2, g_failures = 0,
              g_absences = 4, g_GPA = 55 \<rparr>,
           \<lparr> g_sex = ''Male'', g_studytime = H5to10, g_internet = ''yes'',
              g_higher_education = ''no'', g_consumptionlevel = 5, g_failures = 1,
              g_absences = 0, g_GPA = 100 \<rparr>]"
    by code_simp
  have ft: "filtered_table (exact_library False) ''All''
       (run_events (exact_library False) []
          (startup [student_a, student_b, student_c, student_e])) =
     Some \<lparr> rows = selected_data [student_a, student_b, student_c, student_e],
            consumption_level = None \<rparr>"
    by code_simp
  from grouped_table_groups [of "exact_library False" "''All''" "[]"
      "[student_a, student_b, student_c, student_e]"]
  obtain f g where
    f: "filtered_table (exact_library False) ''All''
       (run_events (exact_library False) []
          (startup [student_a, student_b, student_c, student_e])) = Some f"
    and g: "grouped_table (exact_library False) ''All''
       (run_events (exact_library False) []
          (startup [student_a, student_b, student_c, student_e])) = Some g"
    and len: "length g =
       card {(s, c, i, h) | r s c i h.
          r \<in> set (rows f) \<and> sex r = Some s \<and> studytime r = Some c \<and>
          internet r = Some i \<and> higher_education r = Some h}"
    by blast
  from f ft have "rows f = selected_data [student_a, student_b, student_c, student_e]"
    by (cases f) simp
  moreover from g gt have "length g = 2"
    by simp
  ultimately show ?thesis
    using len gt by simp
qed

subsection \<open>Binning and the figures of one event\<close>

lemma linspace_4:
  "linspace a b 4 = [a, (b - a) / 3 + a, 2 * ((b - a) / 3) + a, b]"
proof -
  have "[0..<3::nat] = [0, 1, 2]"
    by code_simp
  then show ?thesis
    by (simp add: linspace_def)
qed

lemma list_min_Min:
  assumes "x \<noteq> []"
  shows "list_min x = Min (set x)"
proof (cases x)
  case Nil
  with assms show ?thesis by simp
next
  case (Cons a l)
  then show ?thesis
    using Min.set_eq_fold [of a l] by simp
qed

lemma list_max_Max:
  assumes "x \<noteq> []"
  shows "list_max x = Max (set x)"
proof (cases x)
  case Nil
  with assms show ?thesis by simp
next
  case (Cons a l)
  then show ?thesis
    using Max.set_eq_fold [of a l] by simp
qed

lemma bin_of_equal:
  fixes v :: rat
  assumes "0 < e"
  shows "bin_of (linspace (v - e) (v + e) 4) v = Some Medium"
  using assms
  by (simp add: linspace_4 bin_of_def searchsorted_def consumption_levels_def)

lemma bin_of_range:
  fixes v mn mx :: rat
  assumes "mn < mx" and "mn \<le> v" and "v \<le> mx"
  shows "bin_of (lower_first ((mx - mn) * (1 / 1000)) (linspace mn mx 4)) v =
           Some (range_label mn mx v)"
  using assms
  by (simp add: linspace_4 bin_of_def searchsorted_def consumption_levels_def range_label_def
      field_simps)

text \<open>In exact arithmetic the labels are those of the three parts of the observed range.\<close>

lemma cut_labels:
  assumes "x \<noteq> []"
  shows "cut x = Inr (map (\<lambda>v. Some (range_label (Min (set x)) (Max (set x)) v)) x)"
proof -
  let ?mn = "Min (set x)"
  let ?mx = "Max (set x)"
  have mn: "list_min x = ?mn" and mx: "list_max x = ?mx"
    using list_min_Min [OF assms] list_max_Max [OF assms] by simp_all
  have bounds: "?mn \<le> v \<and> v \<le> ?mx" if "v \<in> set x" for v
    using that by simp
  show ?thesis
  proof (cases "?mn = ?mx")
    case True
    define e :: rat where "e = (if ?mn \<noteq> 0 then (1 / 1000) * \<bar>?mn\<bar> else 1 / 1000)"
    have pos: "0 < e"
      by (simp add: e_def)
    have bins: "nbins_to_bins x 3 = Inr (linspace (?mn - e) (?mn + e) 4)"
      using assms True by (simp add: nbins_to_bins_def mn mx e_def Let_def)
    have same: "v = ?mn" if "v \<in> set x" for v
      using bounds [OF that] True by simp
    have "map (bin_of (linspace (?mn - e) (?mn + e) 4)) x =
          map (\<lambda>v. Some (range_label ?mn ?mx v)) x"
    proof (rule map_cong [OF refl])
      fix v
      assume "v \<in> set x"
      from same [OF this] True
      show "bin_of (linspace (?mn - e) (?mn + e) 4) v = Some (range_label ?mn ?mx v)"
        using bin_of_equal [OF pos, of ?mn] by (simp add: range_label_def)
    qed
    then show ?thesis
      by (simp add: cut_def bins)
  next
    case False
    have less: "?mn < ?mx"
    proof -
      from assms obtain v where "v \<in> set x"
        by (cases x) auto
      from bounds [OF this] have "?mn \<le> ?mx"
        by simp
      with False show ?thesis
        by simp
    qed
    have bins: "nbins_to_bins x 3 =
        Inr (lower_first ((?mx - ?mn) * (1 / 1000)) (linspace ?mn ?mx 4))"
      using assms False by (simp add: nbins_to_bins_def mn mx Let_def)
    have "map (bin_of (lower_first ((?mx - ?mn) * (1 / 1000)) (linspace ?mn ?mx 4))) x =
          map (\<lambda>v. Some (range_label ?mn ?mx v)) x"
    proof (rule map_cong [OF refl])
      fix v
      assume "v \<in> set x"
      from bounds [OF this]
      show "bin_of (lower_first ((?mx - ?mn) * (1 / 1000)) (linspace ?mn ?mx 4)) v =
            Some (range_label ?mn ?mx v)"
        by (intro bin_of_range less) simp_all
    qed
    then show ?thesis
      by (simp add: cut_def bins)
  qed
qed

lemma cut_empty: "cut [] = Inl ValueError"
  by (simp add: cut_def nbins_to_bins_def)

lemma exact_cut_labels:
  "exact_cut (IntColumn xs) =
     (if xs = [] then Inl ValueError
      else Inr (map (\<lambda>v. Some (range_label (Min (int_value ` set xs)) (Max (int_value ` set xs))
                                  (int_value v))) xs))"
proof (cases "xs = []")
  case True
  then show ?thesis
    by (simp add: cut_empty)
next
  case False
  then have "map int_value xs \<noteq> []"
    by simp
  from cut_labels [OF this] False show ?thesis
    by (simp add: comp_def)
qed

lemma view_set_labels [simp]: "view (set_labels a labels) = view a"
  by (cases a) simp_all

lemma levels_set_labels [simp]: "levels (set_labels a labels) = levels a"
  by (cases a) simp_all

lemma set_labels_twice [simp]: "set_labels (set_labels a l) l' = set_labels a l'"
  by (cases a) simp_all

lemma generate_figures_some:
  assumes "lookup h fa = Some a" and "lookup h ga = Some g"
  shows "generate_figures lib fa ga h =
     (if \<not> px_ok lib (Sunburst (grouped_sun lib (view a))) then (Inl PlotlyError, h)
      else if \<not> px_ok lib (Scatter g) then (Inl PlotlyError, h)
      else
        (case pd_cut lib (levels a) of
           Inl e \<Rightarrow> (Inl e, h)
         | Inr labels \<Rightarrow>
             (if length labels \<noteq> length (view a) then (Inl ValueError, h)
              else
                (charts_after_cut lib (set_labels a labels) (grouped_sun lib (view a)) g labels,
                 h[fa := set_labels a labels]))))"
  using assms by (simp add: generate_figures_def)

lemma charts_after_cut_Inr:
  assumes "charts_after_cut lib filtered sun grouped labels = Inr figs"
  shows "figs =
     \<lparr> fig_sunburst = sun, fig_scatter = grouped,
       fig_box = zip labels (map v_GPA (view filtered)),
       fig_line = studytime_gpa lib (view filtered),
       fig_bar = gender_groups lib (view filtered),
       fig_hist = map v_absences (view filtered),
       fig_violin = map (\<lambda>v. (v_higher_education v, v_GPA v)) (view filtered) \<rparr>"
  using assms by (simp add: charts_after_cut_def split: if_splits)

text \<open>When the call returns figures, every step before has succeeded.\<close>

lemma generate_figures_Inr:
  assumes "lookup h fa = Some a" and "lookup h ga = Some g"
    and "fst (generate_figures lib fa ga h) = Inr figs"
  shows "\<exists>labels. pd_cut lib (levels a) = Inr labels \<and> length labels = length (view a) \<and>
           snd (generate_figures lib fa ga h) = h[fa := set_labels a labels] \<and>
           figs =
             \<lparr> fig_sunburst = grouped_sun lib (view a), fig_scatter = g,
               fig_box = zip labels (map v_GPA (view a)),
               fig_line = studytime_gpa lib (view a),
               fig_bar = gender_groups lib (view a),
               fig_hist = map v_absences (view a),
               fig_violin = map (\<lambda>v. (v_higher_education v, v_GPA v)) (view a) \<rparr>"
proof (cases "pd_cut lib (levels a)")
  case (Inl e)
  with assms(3) show ?thesis
    by (simp add: generate_figures_some [OF assms(1,2)] split: if_splits)
next
  case (Inr labels)
  with assms(3) have len: "length labels = length (view a)"
    and c: "charts_after_cut lib (set_labels a labels) (grouped_sun lib (view a)) g labels = Inr figs"
    and s: "snd (generate_figures lib fa ga h) = h[fa := set_labels a labels]"
    by (simp_all add: generate_figures_some [OF assms(1,2)] split: if_splits)
  from charts_after_cut_Inr [OF c] len s Inr show ?thesis
    by simp
qed

lemma reachable_update_plots_eq:
  "update_plots lib sel (run_events lib' es (startup data)) =
     generate_figures lib (length (run_events lib' es (startup data)))
       (Suc (length (run_events lib' es (startup data))))
       (run_events lib' es (startup data) @
            [Table \<lparr> rows = (if sel = ''All'' then selected_data data
                               else filter (\<lambda>r. sex r = Some sel) (selected_data data)),
                      consumption_level = None \<rparr>,
             Grouped
               \<lparr> grouped_rows = groupby_mean lib
                   (if sel = ''All'' then selected_data data
                    else filter (\<lambda>r. sex r = Some sel) (selected_data data)),
                 grouped_consumption_level = None \<rparr>])"
  by (simp add: update_plots_def reachable_filter_and_group)

lemma reachable_update_plots_Inr:
  assumes "fst (update_plots lib sel (run_events lib' es (startup data))) = Inr figs"
  defines "F \<equiv> (if sel = ''All'' then selected_data data
                 else filter (\<lambda>r. sex r = Some sel) (selected_data data))"
  shows "\<exists>labels. pd_cut lib (IntColumn (map consumptionlevel F)) = Inr labels \<and>
           length labels = length F \<and>
           fig_box figs = zip labels (map (\<lambda>r. int_value (GPA r)) F) \<and>
           fig_line figs = studytime_gpa lib (map view_of_row F)"
proof -
  let ?H = "run_events lib' es (startup data)"
  let ?a = "Table \<lparr> rows = F, consumption_level = None \<rparr>"
  let ?g = "Grouped \<lparr> grouped_rows = groupby_mean lib F, grouped_consumption_level = None \<rparr>"
  have a: "lookup (?H @ [?a, ?g]) (length ?H) = Some ?a"
    by (simp add: lookup_def nth_append)
  have b: "lookup (?H @ [?a, ?g]) (Suc (length ?H)) = Some ?g"
    by (simp add: lookup_def nth_append)
  have "fst (generate_figures lib (length ?H) (Suc (length ?H)) (?H @ [?a, ?g])) = Inr figs"
    using assms(1) by (simp only: reachable_update_plots_eq F_def)
  from generate_figures_Inr [OF a b this] show ?thesis
    by (auto simp add: comp_def view_of_row_def)
qed

text \<open>
  Claim C8 says that the label of a row is fixed by its own \<open>consumptionlevel\<close>, the range
  1 to 5 being divided into three parts. \<open>pd.cut\<close> with \<open>bins=3\<close> divides the range of the
  values in the column it is given. With the three students, \<open>student_a\<close> (level 2, \<open>GPA\<close>
  55) is \<open>Low\<close> under the selection \<open>All\<close>, where the levels are 2, 5 and 1, and \<open>Medium\<close>
  under \<open>Female\<close>, where she is the only row; the level 2 is \<open>High\<close> beside a 1 and \<open>Low\<close>
  beside a 5; and an empty column has no labels at all.
\<close>

theorem binning_fixed_range_counterexample:
  "map_sum id fig_box
       (fst (update_plots (exact_library False) ''All'' (startup [student_a, student_b, student_d]))) =
     Inr [(Some Low, 55), (Some High, 100), (Some Low, 70)] \<and>
   map_sum id fig_box
       (fst (update_plots (exact_library False) ''Female'' (startup [student_a, student_b, student_d]))) =
     Inr [(Some Medium, 55)] \<and>
   cut [1, 2] = Inr [Some Low, Some High] \<and>
   cut [2, 5] = Inr [Some Low, Some High] \<and>
   cut [] = Inl ValueError"
  by code_simp

text \<open>
  Claim C8, amended. The labels of the box chart are what \<open>pd.cut\<close> returns for the
  \<open>consumptionlevel\<close> column of the filtered frame of the event, one per row, beside the
  \<open>GPA\<close> of the row. On a column where the \<open>float64\<close> computation of \<open>pd.cut\<close> agrees with
  exact arithmetic, an empty column raises \<open>ValueError\<close>, and otherwise every row gets one of
  the labels \<open>Low\<close>, \<open>Medium\<close>, \<open>High\<close>, never a missing one: the range from the least to the
  greatest level in that column is divided into three equal parts, the least value belonging
  to \<open>Low\<close>, and all rows are \<open>Medium\<close> when the levels are all equal. So the label is a
  function of the row's level and of the least and greatest level of the frame.
\<close>

theorem binning_by_observed_range:
  "(fst (update_plots lib sel (run_events lib events (startup data))) = Inr figs \<longrightarrow>
      pd_cut lib (IntColumn (map consumptionlevel
        (if sel = ''All'' then selected_data data
         else filter (\<lambda>r. sex r = Some sel) (selected_data data)))) =
        Inr (map fst (fig_box figs)) \<and>
      map snd (fig_box figs) =
        map (\<lambda>r. int_value (GPA r))
          (if sel = ''All'' then selected_data data
           else filter (\<lambda>r. sex r = Some sel) (selected_data data))) \<and>
   (pd_cut lib (IntColumn xs) = exact_cut (IntColumn xs) \<longrightarrow>
      (xs = [] \<longrightarrow> pd_cut lib (IntColumn xs) = Inl ValueError) \<and>
      (xs \<noteq> [] \<longrightarrow>
         pd_cut lib (IntColumn xs) =
           Inr (map (\<lambda>v. Some (range_label (Min (int_value ` set xs)) (Max (int_value ` set xs))
                                  (int_value v))) xs)))"
proof (intro conjI impI)
  let ?F = "if sel = ''All'' then selected_data data
            else filter (\<lambda>r. sex r = Some sel) (selected_data data)"
  assume "fst (update_plots lib sel (run_events lib events (startup data))) = Inr figs"
  from reachable_update_plots_Inr [OF this] obtain labels where
    c: "pd_cut lib (IntColumn (map consumptionlevel ?F)) = Inr labels"
    and l: "length labels = length ?F"
    and b: "fig_box figs = zip labels (map (\<lambda>r. int_value (GPA r)) ?F)"
    by blast
  from l have "map fst (zip labels (map (\<lambda>r. int_value (GPA r)) ?F)) = labels"
    and "map snd (zip labels (map (\<lambda>r. int_value (GPA r)) ?F)) = map (\<lambda>r. int_value (GPA r)) ?F"
    by simp_all
  then show "pd_cut lib (IntColumn (map consumptionlevel ?F)) = Inr (map fst (fig_box figs))"
    and "map snd (fig_box figs) = map (\<lambda>r. int_value (GPA r)) ?F"
    using c b by simp_all
next
  assume "pd_cut lib (IntColumn xs) = exact_cut (IntColumn xs)" and "xs = []"
  then show "pd_cut lib (IntColumn xs) = Inl ValueError"
    using exact_cut_labels [of xs] by simp
next
  assume "pd_cut lib (IntColumn xs) = exact_cut (IntColumn xs)" and "xs \<noteq> []"
  then show "pd_cut lib (IntColumn xs) =
           Inr (map (\<lambda>v. Some (range_label (Min (int_value ` set xs)) (Max (int_value ` set xs))
                                  (int_value v))) xs)"
    using exact_cut_labels [of xs] by simp
qed

theorem binning_by_observed_range_witness:
  "fst (update_plots (exact_library False) ''Female''
          (run_events (exact_library False) [] (startup [student_a, student_b]))) =
     Inr \<lparr> fig_sunburst = [(Lt2, ''no'', 55)],
           fig_scatter =
             Grouped \<lparr> grouped_rows =
                 [\<lparr> g_sex = ''Female'', g_studytime = Lt2, g_internet = ''no'',
                    g_higher_education = ''yes'', g_consumptionlevel = 2, g_failures = 0,
                    g_absences = 4, g_GPA = 55 \<rparr>],
               grouped_consumption_level = None \<rparr>,
           fig_box = [(Some Medium, 55)],
           fig_line = [(Some Lt2, Some 55), (Some H2to5, None), (Some H5to10, None),
                       (Some Gt10, None)],
           fig_bar = [(''Female'', 2, 55)], fig_hist = [4],
           fig_violin = [(Some ''yes'', 55)] \<rparr> \<and>
   pd_cut (exact_library False) (IntColumn [2]) = Inr [Some Medium] \<and>
   pd_cut (exact_library False) (IntColumn [1, 2]) = exact_cut (IntColumn [1, 2]) \<and>
   [1, 2] \<noteq> ([] :: int64 list) \<and>
   pd_cut (exact_library False) (IntColumn [1, 2]) = Inr [Some Low, Some High] \<and>
   pd_cut (exact_library False) (IntColumn [2, 5]) = Inr [Some Low, Some High] \<and>
   pd_cut (exact_library False) (IntColumn []) = exact_cut (IntColumn []) \<and>
   pd_cut (exact_library False) (IntColumn []) = Inl ValueError"
proof -
  let ?figs = "\<lparr> fig_sunburst = [(Lt2, ''no'', 55)],
           fig_scatter =
             Grouped \<lparr> grouped_rows =
                 [\<lparr> g_sex = ''Female'', g_studytime = Lt2, g_internet = ''no'',
                    g_higher_education = ''yes'', g_consumptionlevel = 2, g_failures = 0,
                    g_absences = 4, g_GPA = 55 \<rparr>],
               grouped_consumption_level = None \<rparr>,
           fig_box = [(Some Medium, 55)],
           fig_line = [(Some Lt2, Some 55), (Some H2to5, None), (Some H5to10, None),
                       (Some Gt10, None)],
           fig_bar = [(''Female'', 2, 55)], fig_hist = [4],
           fig_violin = [(Some ''yes'', 55)] \<rparr>"
  have run: "fst (update_plots (exact_library False) ''Female''
          (run_events (exact_library False) [] (startup [student_a, student_b]))) = Inr ?figs"
    by code_simp
  have agree: "pd_cut (exact_library False) c = exact_cut c" for c
    by (simp add: exact_library_def)
  have rows: "filter (\<lambda>r. sex r = Some ''Female'') (selected_data [student_a, student_b]) =
      [derive_row student_a]"
    by (simp add: selected_data_def derive_row_def student_a_def student_b_def replace_sex_def)
  have level: "consumptionlevel (derive_row student_a) = 2"
    by (simp add: derive_row_def student_a_def max_axis1_def word_sless_alt)
  from binning_by_observed_range [of "exact_library False" "''Female''" "[]"
      "[student_a, student_b]" ?figs "[1, 2]"] run agree
  have one: "pd_cut (exact_library False) (IntColumn [2]) = Inr [Some Medium]"
    and two: "pd_cut (exact_library False) (IntColumn [1, 2]) = Inr [Some Low, Some High]"
    by (simp_all add: rows level range_label_def int_value_def)
  from binning_by_observed_range [of "exact_library False" "''Female''" "[]"
      "[student_a, student_b]" ?figs "[2, 5]"] agree
  have three: "pd_cut (exact_library False) (IntColumn [2, 5]) = Inr [Some Low, Some High]"
    by (simp add: range_label_def int_value_def)
  from binning_by_observed_range [of "exact_library False" "''Female''" "[]"
      "[student_a, student_b]" ?figs "[]"] agree
  have four: "pd_cut (exact_library False) (IntColumn []) = Inl ValueError"
    by simp
  show ?thesis
    using run one two three four agree by simp
qed

subsection \<open>What \<open>generate_figures\<close> reads and writes\<close>

lemma generate_figures_none:
  assumes "lookup h fa = None \<or> lookup h ga = None"
  shows "generate_figures lib fa ga h = (Inl BadReference, h)"
  using assms by (auto simp add: generate_figures_def split: option.splits)

lemma generate_figures_same_inputs:
  assumes "lookup h' fa' = lookup h fa" and "lookup h' ga' = lookup h ga"
  shows "fst (generate_figures lib fa' ga' h') = fst (generate_figures lib fa ga h)"
  using assms by (simp add: generate_figures_def split: option.splits sum.splits)

lemma generate_figures_store:
  assumes "lookup h fa = Some a" and "lookup h ga = Some g"
  shows "snd (generate_figures lib fa ga h) =
     (case pd_cut lib (levels a) of
        Inl e \<Rightarrow> h
      | Inr labels \<Rightarrow>
          if px_ok lib (Sunburst (grouped_sun lib (view a))) \<and> px_ok lib (Scatter g) \<and>
             length labels = length (view a)
          then h[fa := set_labels a labels] else h)"
  by (simp add: generate_figures_some [OF assms] split: sum.splits)

lemma lookup_update_same: "a < length h \<Longrightarrow> lookup (h[a := v]) a = Some v"
  by (simp add: lookup_def)

lemma lookup_Some_less: "lookup h a = Some v \<Longrightarrow> a < length h"
  by (simp add: lookup_def split: if_splits)

lemma generate_figures_inputs_after:
  assumes "lookup h fa = Some a" and "lookup h ga = Some g"
  shows "lookup (snd (generate_figures lib fa ga h)) fa =
     Some (case pd_cut lib (levels a) of
             Inl e \<Rightarrow> a
           | Inr labels \<Rightarrow>
               if px_ok lib (Sunburst (grouped_sun lib (view a))) \<and> px_ok lib (Scatter g) \<and>
                  length labels = length (view a)
               then set_labels a labels else a)"
  using assms lookup_Some_less [OF assms(1)]
  by (simp add: generate_figures_store [OF assms] lookup_update_same split: sum.splits)

lemma generate_figures_twice:
  assumes "ga \<noteq> fa"
  shows "fst (generate_figures lib fa ga (snd (generate_figures lib fa ga h))) =
         fst (generate_figures lib fa ga h)"
proof (cases "lookup h fa = None \<or> lookup h ga = None")
  case True
  then show ?thesis
    by (simp add: generate_figures_none)
next
  case False
  then obtain a g where a: "lookup h fa = Some a" and g: "lookup h ga = Some g"
    by auto
  let ?h' = "snd (generate_figures lib fa ga h)"
  have g': "lookup ?h' ga = Some g"
    using generate_figures_other [OF assms, of lib ga h] g by simp
  show ?thesis
  proof (cases "?h' = h")
    case True
    then show ?thesis
      by simp
  next
    case False
    then obtain labels where c: "pd_cut lib (levels a) = Inr labels"
      and ok: "px_ok lib (Sunburst (grouped_sun lib (view a)))" "px_ok lib (Scatter g)"
        "length labels = length (view a)"
      and h': "?h' = h[fa := set_labels a labels]"
      by (auto simp add: generate_figures_store [OF a g] split: sum.splits if_splits)
    have a': "lookup ?h' fa = Some (set_labels a labels)"
      using lookup_Some_less [OF a] by (simp add: h' lookup_update_same)
    have "fst (generate_figures lib fa ga ?h') =
          charts_after_cut lib (set_labels a labels) (grouped_sun lib (view a)) g labels"
      using c ok by (simp add: generate_figures_some [OF a' g'])
    moreover have "fst (generate_figures lib fa ga h) =
          charts_after_cut lib (set_labels a labels) (grouped_sun lib (view a)) g labels"
      using c ok by (simp add: generate_figures_some [OF a g])
    ultimately show ?thesis
      by simp
  qed
qed

lemma generate_figures_table_rows:
  assumes "lookup h fa = Some (Table f)"
  shows "\<exists>f'. lookup (snd (generate_figures lib fa ga h)) fa = Some (Table f') \<and>
               rows f' = rows f"
proof (cases "lookup h ga")
  case None
  then show ?thesis
    using assms by (simp add: generate_figures_none)
next
  case (Some g)
  from generate_figures_inputs_after [OF assms Some, of lib] show ?thesis
    by (auto split: sum.splits)
qed

text \<open>
  Claim C6 says that \<open>generate_figures\<close> leaves both input frames unchanged. Line 112
  assigns a column of \<open>filtered_data\<close>: in the store of the first event \<open>All\<close>, the frame
  passed as \<open>filtered_data\<close> has no column \<open>consumption_level\<close> before the call and has it,
  with the labels, after.
\<close>

theorem generate_figures_mutates_counterexample:
  "filter_and_group (exact_library False) ''All'' (startup [student_a, student_b]) =
     Inr (1, 2, sample_store) \<and>
   lookup sample_store 1 =
     Some (Table \<lparr> rows = selected_data [student_a, student_b], consumption_level = None \<rparr>) \<and>
   lookup (snd (generate_figures (exact_library False) 1 2 sample_store)) 1 =
     Some (Table \<lparr> rows = selected_data [student_a, student_b],
                   consumption_level = Some [Some Low, Some High] \<rparr>)"
  by code_simp

text \<open>
  Claim C6, amended. Whatever the library, the result of \<open>generate_figures\<close> depends only on
  the two objects its arguments refer to: two calls on stores that agree there give equal
  results, whatever else the stores hold, and with two different frames a second call on the
  store the first one left gives the result of the first. The call keeps the size of the
  store and every object other than the one \<open>filtered_data\<close> refers to, so the grouped
  frame too when it is another one. In the frame \<open>filtered_data\<close> refers to it changes
  nothing but the column \<open>consumption_level\<close>, which it sets to the labels \<open>pd.cut\<close>
  returns, provided \<open>px.sunburst\<close> and \<open>px.scatter\<close> have returned and \<open>pd.cut\<close> has not
  raised; otherwise the frame is as before. The rows of a frame of \<open>selected_data\<close>'s kind
  are the same after the call.
\<close>

theorem generate_figures_effect:
  "(lookup h' fa' = lookup h fa \<and> lookup h' ga' = lookup h ga \<longrightarrow>
      fst (generate_figures lib fa' ga' h') = fst (generate_figures lib fa ga h)) \<and>
   (ga \<noteq> fa \<longrightarrow>
      fst (generate_figures lib fa ga (snd (generate_figures lib fa ga h))) =
        fst (generate_figures lib fa ga h)) \<and>
   length (snd (generate_figures lib fa ga h)) = length h \<and>
   (\<forall>x. x \<noteq> fa \<longrightarrow> lookup (snd (generate_figures lib fa ga h)) x = lookup h x) \<and>
   (lookup h fa = Some a \<and> lookup h ga = Some g \<longrightarrow>
      lookup (snd (generate_figures lib fa ga h)) fa =
        Some (case pd_cut lib (levels a) of
                Inl e \<Rightarrow> a
              | Inr labels \<Rightarrow>
                  if px_ok lib (Sunburst (grouped_sun lib (view a))) \<and> px_ok lib (Scatter g) \<and>
                     length labels = length (view a)
                  then set_labels a labels else a)) \<and>
   (lookup h fa = Some (Table f) \<longrightarrow>
      (\<exists>f'. lookup (snd (generate_figures lib fa ga h)) fa = Some (Table f') \<and>
            rows f' = rows f))"
  using generate_figures_same_inputs [of h' fa' h fa ga' ga lib]
    generate_figures_twice [of ga fa lib h]
    generate_figures_length [of lib fa ga h]
    generate_figures_other [of _ fa lib ga h]
    generate_figures_inputs_after [of h fa a ga g lib]
    generate_figures_table_rows [of h fa f lib ga]
  by blast

theorem generate_figures_effect_witness:
  "lookup sample_store 1 =
     Some (Table \<lparr> rows = selected_data [student_a, student_b], consumption_level = None \<rparr>) \<and>
   lookup sample_store 2 =
     Some (Grouped \<lparr> grouped_rows = groupby_mean (exact_library False)
                       (selected_data [student_a, student_b]),
                     grouped_consumption_level = None \<rparr>) \<and>
   lookup (tl sample_store) 0 = lookup sample_store 1 \<and>
   lookup (tl sample_store) 1 = lookup sample_store 2 \<and>
   fst (generate_figures (exact_library False) 0 1 (tl sample_store)) =
     fst (generate_figures (exact_library False) 1 2 sample_store) \<and>
   (2 :: nat) \<noteq> 1 \<and>
   fst (generate_figures (exact_library False) 1 2
          (snd (generate_figures (exact_library False) 1 2 sample_store))) =
     fst (generate_figures (exact_library False) 1 2 sample_store) \<and>
   (0 :: nat) \<noteq> 1 \<and>
   lookup (snd (generate_figures (exact_library False) 1 2 sample_store)) 0 =
     lookup sample_store 0 \<and>
   lookup (snd (generate_figures (exact_library False) 1 2 sample_store)) 2 =
     lookup sample_store 2 \<and>
   lookup (snd (generate_figures (exact_library False) 1 2 sample_store)) 1 =
     Some (Table \<lparr> rows = selected_data [student_a, student_b],
                   consumption_level = Some [Some Low, Some High] \<rparr>) \<and>
   lookup (snd (generate_figures no_scatter_library 1 2 sample_store)) 1 =
     Some (Table \<lparr> rows = selected_data [student_a, student_b], consumption_level = None \<rparr>)"
proof -
  let ?F = "\<lparr> rows = selected_data [student_a, student_b], consumption_level = None \<rparr>"
  let ?G = "Grouped \<lparr> grouped_rows = groupby_mean (exact_library False)
                       (selected_data [student_a, student_b]),
                     grouped_consumption_level = None \<rparr>"
  have l1: "lookup sample_store 1 = Some (Table ?F)"
    and l2: "lookup sample_store 2 = Some ?G"
    by (simp_all add: sample_store_def lookup_def)
  have l3: "lookup (tl sample_store) 0 = lookup sample_store 1"
    and l4: "lookup (tl sample_store) 1 = lookup sample_store 2"
    by (simp_all add: sample_store_def lookup_def)
  have c: "pd_cut (exact_library False)
      (IntColumn (map consumptionlevel (selected_data [student_a, student_b]))) =
      Inr [Some Low, Some High]"
    by code_simp
  have c': "pd_cut no_scatter_library
      (IntColumn (map consumptionlevel (selected_data [student_a, student_b]))) =
      Inr [Some Low, Some High]"
    by code_simp
  have ok: "px_ok (exact_library False) p" for p
    by (simp add: exact_library_def)
  have no: "\<not> px_ok no_scatter_library (Scatter ?G)"
    by (simp add: no_scatter_library_def)
  have len: "length (selected_data [student_a, student_b]) = 2"
    by (simp add: selected_data_def)
  note t = generate_figures_effect [of "tl sample_store" 0 sample_store 1 1 2
      "exact_library False" "Table ?F" ?G ?F]
  note u = generate_figures_effect [of "tl sample_store" 0 sample_store 1 1 2
      no_scatter_library "Table ?F" ?G ?F]
  from t l3 l4
  have same: "fst (generate_figures (exact_library False) 0 1 (tl sample_store)) =
              fst (generate_figures (exact_library False) 1 2 sample_store)"
    by blast
  from t have twice: "fst (generate_figures (exact_library False) 1 2
          (snd (generate_figures (exact_library False) 1 2 sample_store))) =
     fst (generate_figures (exact_library False) 1 2 sample_store)"
    by simp
  from t have "\<forall>x. x \<noteq> 1 \<longrightarrow>
      lookup (snd (generate_figures (exact_library False) 1 2 sample_store)) x =
      lookup sample_store x"
    by blast
  then have other: "lookup (snd (generate_figures (exact_library False) 1 2 sample_store)) 0 =
      lookup sample_store 0"
    "lookup (snd (generate_figures (exact_library False) 1 2 sample_store)) 2 =
      lookup sample_store 2"
    by simp_all
  from t l1 l2
  have "lookup (snd (generate_figures (exact_library False) 1 2 sample_store)) 1 =
        Some (case pd_cut (exact_library False) (levels (Table ?F)) of
                Inl e \<Rightarrow> Table ?F
              | Inr labels \<Rightarrow>
                  if px_ok (exact_library False)
                       (Sunburst (grouped_sun (exact_library False) (view (Table ?F)))) \<and>
                     px_ok (exact_library False) (Scatter ?G) \<and>
                     length labels = length (view (Table ?F))
                  then set_labels (Table ?F) labels else Table ?F)"
    by blast
  then have after: "lookup (snd (generate_figures (exact_library False) 1 2 sample_store)) 1 =
     Some (Table \<lparr> rows = selected_data [student_a, student_b],
                   consumption_level = Some [Some Low, Some High] \<rparr>)"
    by (simp add: c ok len)
  from u l1 l2
  have "lookup (snd (generate_figures no_scatter_library 1 2 sample_store)) 1 =
        Some (case pd_cut no_scatter_library (levels (Table ?F)) of
                Inl e \<Rightarrow> Table ?F
              | Inr labels \<Rightarrow>
                  if px_ok no_scatter_library
                       (Sunburst (grouped_sun no_scatter_library (view (Table ?F)))) \<and>
                     px_ok no_scatter_library (Scatter ?G) \<and>
                     length labels = length (view (Table ?F))
                  then set_labels (Table ?F) labels else Table ?F)"
    by blast
  then have refused: "lookup (snd (generate_figures no_scatter_library 1 2 sample_store)) 1 =
     Some (Table ?F)"
    by (simp add: c' no)
  show ?thesis
    using l1 l2 l3 l4 same twice other after refused by simp
qed

subsection \<open>The line chart\<close>

lemma Categorical_label: "Categorical (Some (cat_label c)) = Some c"
  by (cases c) (simp_all add: Categorical_def categories_def)

lemma sorted_cat_code: "sorted (map cat_code cs) = sorted cs"
  by (induction cs) (auto simp add: less_eq_studytime_cat_def)

lemma sorted_categories: "sorted categories"
  by (simp add: categories_def less_eq_studytime_cat_def)

lemma studytime_gpa_eq:
  "studytime_gpa lib F =
     map (\<lambda>c. (Some c, mean lib (map v_GPA (get_group v_studytime F c))))
       (if observed_default lib then group_keys v_studytime F else categories)"
proof -
  let ?ks = "if observed_default lib then group_keys v_studytime F else categories"
  let ?t = "map (\<lambda>c. (Some c, mean lib (map v_GPA (get_group v_studytime F c)))) ?ks"
  have t: "map (\<lambda>p. (Categorical (Some (cat_label (fst p))), snd p)) (groupby_studytime lib F) = ?t"
    by (simp add: groupby_studytime_def Categorical_label comp_def)
  have "sorted ?ks"
    by (simp add: sorted_group_keys sorted_categories)
  then have "sorted (map (\<lambda>p. sort_code (fst p)) ?t)"
    by (simp add: comp_def sort_code_def sorted_cat_code)
  then have "sort_key (\<lambda>p. sort_code (fst p)) ?t = ?t"
    by (rule sort_key_id_if_sorted)
  then show ?thesis
    by (simp only: studytime_gpa_def t)
qed

lemma UNIV_studytime_cat: "(UNIV :: studytime_cat set) = {Lt2, H2to5, H5to10, Gt10}"
proof -
  have "c \<in> {Lt2, H2to5, H5to10, Gt10}" for c
    by (cases c) simp_all
  then show ?thesis
    by blast
qed

lemma length_distinct_cats:
  fixes cs :: "studytime_cat list"
  assumes "distinct cs"
  shows "length cs \<le> 4"
proof -
  have "length cs = card (set cs)"
    using assms by (simp add: distinct_card)
  also have "\<dots> \<le> card (UNIV :: studytime_cat set)"
  proof (rule card_mono)
    show "finite (UNIV :: studytime_cat set)"
      by (simp add: UNIV_studytime_cat)
    show "set cs \<subseteq> UNIV"
      by (rule subset_UNIV)
  qed
  also have "\<dots> = 4"
    by (simp add: UNIV_studytime_cat)
  finally show ?thesis .
qed

lemma mean_defined: "mean lib xs \<noteq> None \<longleftrightarrow> xs \<noteq> []"
  by (simp add: mean_def)

text \<open>With \<open>observed\<close> the line chart has one point per category that occurs.\<close>

lemma studytime_gpa_observed:
  assumes "observed_default lib"
  shows "map fst (studytime_gpa lib F) = map Some (group_keys v_studytime F) \<and>
   sorted (group_keys v_studytime F) \<and> distinct (group_keys v_studytime F) \<and>
   set (group_keys v_studytime F) = {c. \<exists>r \<in> set F. v_studytime r = Some c} \<and>
   length (studytime_gpa lib F) \<le> 4 \<and>
   (\<forall>p \<in> set (studytime_gpa lib F). snd p \<noteq> None)"
proof -
  have "snd p \<noteq> None" if "p \<in> set (studytime_gpa lib F)" for p
  proof -
    from that assms obtain c where c: "c \<in> set (group_keys v_studytime F)"
      and p: "p = (Some c, mean lib (map v_GPA (get_group v_studytime F c)))"
      by (auto simp add: studytime_gpa_eq)
    have "mean lib (map v_GPA (get_group v_studytime F c)) \<noteq> None"
      using mean_defined [of lib "map v_GPA (get_group v_studytime F c)"]
        get_group_nonempty [OF c]
      by simp
    then show ?thesis
      by (simp add: p)
  qed
  moreover have "length (studytime_gpa lib F) \<le> 4"
    using length_distinct_cats [OF distinct_group_keys, of v_studytime F] assms
    by (simp add: studytime_gpa_eq)
  ultimately show ?thesis
    using assms
    by (simp add: studytime_gpa_eq comp_def sorted_group_keys distinct_group_keys set_group_keys)
qed

text \<open>Without it, the line chart has a row for each of the four categories.\<close>

lemma studytime_gpa_unobserved:
  assumes "\<not> observed_default lib"
  shows "map fst (studytime_gpa lib F) = [Some Lt2, Some H2to5, Some H5to10, Some Gt10] \<and>
   map snd (studytime_gpa lib F) =
     map (\<lambda>c. mean lib (map v_GPA (filter (\<lambda>r. v_studytime r = Some c) F))) categories \<and>
   (\<forall>c. (Some c, None) \<in> set (studytime_gpa lib F) \<longleftrightarrow>
        (\<forall>r \<in> set F. v_studytime r \<noteq> Some c))"
proof -
  have "(Some c, None) \<in> set (studytime_gpa lib F) \<longleftrightarrow> (\<forall>r \<in> set F. v_studytime r \<noteq> Some c)"
    for c
  proof -
    have "(Some c, None) \<in> set (studytime_gpa lib F) \<longleftrightarrow>
          mean lib (map v_GPA (get_group v_studytime F c)) = None"
      using assms by (cases c) (auto simp add: studytime_gpa_eq categories_def)
    also have "\<dots> \<longleftrightarrow> get_group v_studytime F c = []"
      by (simp add: mean_def)
    also have "\<dots> \<longleftrightarrow> (\<forall>r \<in> set F. v_studytime r \<noteq> Some c)"
      by (simp add: get_group_def filter_empty_conv)
    finally show ?thesis .
  qed
  then show ?thesis
    using assms by (simp add: studytime_gpa_eq comp_def categories_def get_group_def)
qed

text \<open>
  Claim C7 says that the line chart has one point per category that occurs in the filtered
  frame and none for a category that does not. The \<open>groupby\<close> of line 141 is the only one
  of the three on \<open>studytime\<close> that does not pass \<open>observed=True\<close>. Under the default
  \<open>observed=False\<close> the selection \<open>Female\<close> on \<open>student_a\<close> and \<open>student_b\<close>, whose
  filtered frame has the one category \<open><2 hours\<close>, gives the line chart four rows, three of
  them with a \<open>NaN\<close> mean; under \<open>observed=True\<close> it gives the one row the claim describes.
\<close>

theorem line_chart_unobserved_categories:
  "map_sum id fig_line
       (fst (update_plots (exact_library False) ''Female'' (startup [student_a, student_b]))) =
     Inr [(Some Lt2, Some 55), (Some H2to5, None), (Some H5to10, None), (Some Gt10, None)] \<and>
   filtered_table (exact_library False) ''Female'' (startup [student_a, student_b]) =
     Some \<lparr> rows =
         [\<lparr> sex = Some ''Female'', studytime = Some Lt2, internet = Some ''no'',
            higher_education = Some ''yes'', failures = 0, freetime = 3, traveltime = 1,
            consumptionlevel = 2, absences = 4, GPA = 55 \<rparr>],
       consumption_level = None \<rparr> \<and>
   map_sum id fig_line
       (fst (update_plots (exact_library True) ''Female'' (startup [student_a, student_b]))) =
     Inr [(Some Lt2, Some 55)]"
  by code_simp

end
